theory Spec2Isabelle
  imports Main "HOL-Library.Sublist"
begin

section \<open>The audit command of the maintainers tool\<close>

text \<open>
  The repository holds two versions of the \<^verbatim>\<open>audit\<close> command of package \<^verbatim>\<open>cmd\<close>:
  \<^item> the name-filtered one (\<^verbatim>\<open>audit [name|all]...\<close>, the file with \<^verbatim>\<open>auditOwnersFiles\<close>),
    embedded under the names of its functions;
  \<^item> the unconditional one (\<^verbatim>\<open>src/cmd/audit.go\<close>), embedded under the same names with
    the suffix \<open>_uncond\<close>.

  Both write lines to standard output and call the network and the file system. A run
  is modelled by the list of its effects in the order they happen (the \<open>event\<close>s below)
  and by how it ends: by returning, by a Go panic, or by \<^verbatim>\<open>os.Exit\<close>.
\<close>

subsection \<open>Data model: the types of package utils that the audit reads\<close>

text \<open>
  Modelled from the spec: the struct types of package \<^verbatim>\<open>utils\<close> are not in the sources.
  The records hold the fields that the audit reads. A field keeps its Go name, except
  where two structs share one: \<^verbatim>\<open>Person.Name\<close> is \<open>pName\<close>, and \<^verbatim>\<open>Subproject.Name\<close>,
  \<^verbatim>\<open>Subproject.Contact\<close> and \<^verbatim>\<open>Subproject.Meetings\<close> are \<open>spName\<close>, \<open>spContact\<close> and
  \<open>spMeetings\<close>. Of meetings and GitHub teams the audit reads the number only, so their
  elements are plain strings. A Go pointer that may be nil is an \<open>option\<close>. The Go
  variables \<^verbatim>\<open>group\<close> and \<^verbatim>\<open>context\<close> are written \<open>grp\<close> and \<open>ctx\<close>.
\<close>

record Person =
  pName :: string
  GitHub :: string
  Company :: string

record Contact =
  Slack :: string
  MailingList :: string
  PrivateMailingList :: string
  GithubTeams :: "string list"
  Liaison :: "Person option"

record Leadership =
  Chairs :: "Person list"
  TechnicalLeads :: "Person list"
  EmeritusLeads :: "Person list"

record Subproject =
  spName :: string
  Description :: string
  spContact :: "Contact option"
  Owners :: "string list"
  spMeetings :: "string list"

record Group =
  Dir :: string
  Name :: string
  Label :: string
  MissionStatement :: string
  CharterLink :: string
  StakeholderSIGs :: "string list"
  Leadership :: Leadership
  Meetings :: "string list"
  Contact :: Contact
  Subprojects :: "Subproject list"

record Context =
  Sigs :: "Group list"
  WorkingGroups :: "Group list"
  UserGroups :: "Group list"
  Committees :: "Group list"

record OwnersInfo =
  Labels :: "string list"
  Approvers :: "string list"
  Reviewers :: "string list"
  RequiredReviewers :: "string list"

subsection \<open>The outside world\<close>

text \<open>
  An HTTP response as the audit reads it: the status code, and what \<^verbatim>\<open>ioutil.ReadAll\<close>
  gives on its body (the bytes read, and the read error if there is one).
\<close>

record response =
  StatusCode :: nat
  Body :: string
  ReadErr :: "string option"

text \<open>
  What \<^verbatim>\<open>http.Get\<close> returns, after the contract of \<^verbatim>\<open>net/http\<close>: a response and no error;
  or an error and a nil response (the request could not be made or answered); or both,
  which happens only when the redirect policy fails.
\<close>

datatype http_result =
    Response response
  | Failure string
  | PolicyFailure response string

text \<open>
  Everything the audit calls and the sources do not hold: the network, the file system,
  and the functions of package \<^verbatim>\<open>utils\<close> (\<^verbatim>\<open>GetOwnersInfoFromBytes\<close>, the methods
  \<^verbatim>\<open>Group.DirName\<close> and \<^verbatim>\<open>Group.LabelName\<close>), \<^verbatim>\<open>path.Join\<close>, and how \<^verbatim>\<open>%v\<close> prints a
  \<^verbatim>\<open>*utils.Person\<close>. They are parameters of the model. Modelled from the spec: the
  expected directory name and the expected label are computed from the display name of
  the group and its category, so \<open>DirName w (Name grp) groupType\<close> stands for
  \<^verbatim>\<open>group.DirName(groupType)\<close>, and \<open>LabelName\<close> likewise.
\<close>

record world =
  httpGet :: "string \<Rightarrow> http_result"
  notExist :: "string \<Rightarrow> bool"
  GetOwnersInfoFromBytes :: "string \<Rightarrow> string + OwnersInfo"
  DirName :: "string \<Rightarrow> string \<Rightarrow> string"
  LabelName :: "string \<Rightarrow> string \<Rightarrow> string"
  pathJoin :: "string list \<Rightarrow> string"
  fmtPerson :: "Person \<Rightarrow> string"

subsection \<open>Effects and outcomes\<close>

text \<open>
  Every \<^verbatim>\<open>fmt.Printf\<close> of the audit prints one line whose format starts with
  \<^verbatim>\<open>ERROR: \<close>, \<^verbatim>\<open>WARNING: \<close>, \<^verbatim>\<open>OPTIONAL: \<close> or none of them, and ends with a newline.
  \<open>Printf sev text\<close> is that call: \<open>sev\<close> the prefix and \<open>text\<close> what follows it, without
  the final newline; \<open>render\<close> gives the bytes written.
\<close>

datatype severity = ERROR | WARNING | OPTIONAL | PLAIN

datatype event =
    Printf severity string
  | Call_Get string
  | Call_ReadAll string
  | Call_Parse string
  | Call_Stat string

datatype outcome = Returned | Panicked | Exited

type_synonym run = "event list \<times> outcome"

fun prefix_of :: "severity \<Rightarrow> string" where
  "prefix_of ERROR = ''ERROR: ''"
| "prefix_of WARNING = ''WARNING: ''"
| "prefix_of OPTIONAL = ''OPTIONAL: ''"
| "prefix_of PLAIN = ''''"

fun render :: "event \<Rightarrow> string" where
  "render (Printf sev text) = prefix_of sev @ text @ [CHR 0x0A]"
| "render (Call_Get url) = []"
| "render (Call_ReadAll url) = []"
| "render (Call_Parse bytes) = []"
| "render (Call_Stat p) = []"

definition stdout :: "event list \<Rightarrow> string" where
  "stdout es = concat (map render es)"

definition emit :: "event list \<Rightarrow> run" where
  "emit es = (es, Returned)"

definition panic :: run where
  "panic = ([], Panicked)"

text \<open>Statements in sequence: what follows a panic or an exit does not run.\<close>

fun seqs :: "run list \<Rightarrow> run" where
  "seqs [] = ([], Returned)"
| "seqs (r # rs) =
     (case snd r of
        Returned \<Rightarrow> (fst r @ fst (seqs rs), snd (seqs rs))
      | Panicked \<Rightarrow> r
      | Exited \<Rightarrow> r)"

subsection \<open>The Go library functions the audit uses\<close>

text \<open>\<^verbatim>\<open>strings.HasPrefix\<close>, \<^verbatim>\<open>strings.HasSuffix\<close> and \<^verbatim>\<open>strings.Contains\<close>.\<close>

fun HasPrefix :: "string \<Rightarrow> string \<Rightarrow> bool" where
  "HasPrefix s [] = True"
| "HasPrefix [] (p # ps) = False"
| "HasPrefix (c # cs) (p # ps) = (c = p \<and> HasPrefix cs ps)"

definition HasSuffix :: "string \<Rightarrow> string \<Rightarrow> bool" where
  "HasSuffix s suff = HasPrefix (rev s) (rev suff)"

fun Contains :: "string \<Rightarrow> string \<Rightarrow> bool" where
  "Contains [] substr = HasPrefix [] substr"
| "Contains (c # cs) substr = (if HasPrefix (c # cs) substr then True else Contains cs substr)"

text \<open>The verb \<^verbatim>\<open>%d\<close> on a number that is not negative.\<close>

fun digits :: "nat \<Rightarrow> string" where
  "digits n =
     (if n < 10 then [char_of (48 + n)]
      else digits (n div 10) @ [char_of (48 + n mod 10)])"

declare digits.simps [simp del]

text \<open>The verb \<^verbatim>\<open>%s\<close> on an \<^verbatim>\<open>error\<close> that may be nil.\<close>

fun fmt_error :: "string option \<Rightarrow> string" where
  "fmt_error None = ''%!s(<nil>)''"
| "fmt_error (Some e) = e"

subsection \<open>Regular expressions\<close>

text \<open>
  The two patterns use literal text, the classes \<^verbatim>\<open>.\<close> and \<^verbatim>\<open>[^/]\<close> (any character but
  one), \<^verbatim>\<open>+\<close> and \<^verbatim>\<open>*\<close> on a class, sequence, and alternation; a named group is a group.
  \<open>rests re s\<close> lists what is left of \<open>s\<close> after each way of matching \<open>re\<close> at its start.
  \<^verbatim>\<open>MatchString\<close> is not anchored: it reports a match that starts and ends anywhere.
  One character of the string stands for one rune, so a class consumes one character;
  this is Go's matching on every ASCII string.
\<close>

datatype cclass = AnyBut char

datatype regex =
    Str string
  | One cclass
  | Star cclass
  | Plus cclass
  | Seq regex regex
  | Alt regex regex

fun in_class :: "cclass \<Rightarrow> char \<Rightarrow> bool" where
  "in_class (AnyBut x) c = (c \<noteq> x)"

fun after_star :: "cclass \<Rightarrow> string \<Rightarrow> string list" where
  "after_star k [] = [[]]"
| "after_star k (c # cs) = (c # cs) # (if in_class k c then after_star k cs else [])"

fun rests :: "regex \<Rightarrow> string \<Rightarrow> string list" where
  "rests (Str p) s = (if HasPrefix s p then [drop (length p) s] else [])"
| "rests (One k) s = (case s of [] \<Rightarrow> [] | c # cs \<Rightarrow> if in_class k c then [cs] else [])"
| "rests (Star k) s = after_star k s"
| "rests (Plus k) s =
     (case s of [] \<Rightarrow> [] | c # cs \<Rightarrow> if in_class k c then after_star k cs else [])"
| "rests (Seq a b) s = concat (map (rests b) (rests a s))"
| "rests (Alt a b) s = rests a s @ rests b s"

definition MatchString :: "regex \<Rightarrow> string \<Rightarrow> bool" where
  "MatchString re s = list_ex (\<lambda>t. rests re t \<noteq> []) (suffixes s)"

text \<open>The language of a pattern, to state what \<open>rests\<close> and \<open>MatchString\<close> compute.\<close>

fun lang :: "regex \<Rightarrow> string set" where
  "lang (Str p) = {p}"
| "lang (One k) = {u. \<exists>c. u = [c] \<and> in_class k c}"
| "lang (Star k) = {u. list_all (in_class k) u}"
| "lang (Plus k) = {u. u \<noteq> [] \<and> list_all (in_class k) u}"
| "lang (Seq a b) = {u. \<exists>x y. u = x @ y \<and> x \<in> lang a \<and> y \<in> lang b}"
| "lang (Alt a b) = lang a \<union> lang b"

fun Cat :: "regex list \<Rightarrow> regex" where
  "Cat [] = Str []"
| "Cat [r] = r"
| "Cat (r # rs) = Seq r (Cat rs)"

definition dot :: cclass where
  "dot = AnyBut (CHR 0x0A)"

definition notSlash :: cclass where
  "notSlash = AnyBut CHR ''/''"

definition regexRawGitHubURL :: string where
  "regexRawGitHubURL =
     ''https://raw.githubusercontent.com/(?P<org>[^/]+)/(?P<repo>[^/]+)/(?P<branch>[^/]+)/(?P<path>.*)''"

definition regexGitHubURL :: string where
  "regexGitHubURL =
     ''https://github.com/(?P<org>[^/]+)/(?P<repo>[^/]+)/(blob|tree)/(?P<branch>[^/]+)/(?P<path>.*)''"

text \<open>\<^verbatim>\<open>regexp.MustCompile\<close> of the two pattern strings.\<close>

definition reRawGitHubURL :: regex where
  "reRawGitHubURL =
     Cat [Str ''https://raw'', One dot, Str ''githubusercontent'', One dot, Str ''com/'',
          Plus notSlash, Str ''/'', Plus notSlash, Str ''/'', Plus notSlash, Str ''/'',
          Star dot]"

definition reGitHubURL :: regex where
  "reGitHubURL =
     Cat [Str ''https://github'', One dot, Str ''com/'',
          Plus notSlash, Str ''/'', Plus notSlash, Str ''/'',
          Alt (Str ''blob'') (Str ''tree''), Str ''/'', Plus notSlash, Str ''/'',
          Star dot]"

subsection \<open>The name-filtered audit: persons, contact, leadership\<close>

definition auditPerson :: "string \<Rightarrow> Person \<Rightarrow> event list" where
  "auditPerson extra person =
     (if length (pName person) = 0
      then [Printf WARNING (''missing 'name' key in '' @ extra)] else []) @
     (if length (GitHub person) = 0
      then [Printf WARNING (''missing 'github' key in '' @ extra @ '' for '' @ pName person)]
      else []) @
     (if length (Company person) = 0
      then [Printf OPTIONAL (''missing 'company' key in '' @ extra @ '' for '' @ pName person)]
      else [])"

definition auditContact :: "Contact \<Rightarrow> event list" where
  "auditContact contact =
     (if length (Slack contact) = 0
      then [Printf WARNING ''missing 'slack' in contact''] else []) @
     (if length (MailingList contact) = 0
      then [Printf WARNING ''missing 'mailing_list' in contact''] else []) @
     (if length (PrivateMailingList contact) = 0
      then [Printf OPTIONAL ''missing 'private_mailing_list' in contact''] else []) @
     (if length (GithubTeams contact) = 0
      then [Printf OPTIONAL ''missing 'teams' in contact''] else []) @
     (case Liaison contact of
        None \<Rightarrow> []
      | Some liaison \<Rightarrow> auditPerson ''contact/liaison'' liaison)"

definition auditLeadership :: "Group \<Rightarrow> string \<Rightarrow> event list" where
  "auditLeadership grp groupType =
     (if length (Chairs (Leadership grp)) = 0 then
        [Printf WARNING ''missing 'chairs' key (in 'leadership' section)''] @
        (if groupType = ''sig'' then
           (if length (Chairs (Leadership grp)) = 1 then
              [Printf WARNING
                 ''please consider adding more folks in as 'chairs' (in 'leadership' section)'']
            else [])
         else [])
      else []) @
     (if length (TechnicalLeads (Leadership grp)) = 0 then
        [Printf WARNING ''missing 'tech_leads' key (in 'leadership' section)''] @
        (if groupType = ''sig'' then
           [Printf WARNING
              ''if chairs are serving as tech leads, please add them explicitly in 'tech_leads' key (in 'leadership' section)'']
         else [])
      else []) @
     concat (map (auditPerson ''leadership'')
       (Chairs (Leadership grp) @ TechnicalLeads (Leadership grp) @
        EmeritusLeads (Leadership grp)))"

subsection \<open>The name-filtered audit: charter link and stakeholders\<close>

definition auditCharterLink :: "world \<Rightarrow> string \<Rightarrow> Group \<Rightarrow> event list" where
  "auditCharterLink w pwd grp =
     (if HasPrefix (CharterLink grp) ''http'' then
        Call_Get (CharterLink grp) #
        (case httpGet w (CharterLink grp) of
           Response resp \<Rightarrow>
             if StatusCode resp = 200 then []
             else [Printf WARNING
                     (''unable to reach url for 'charter_link' - '' @ CharterLink grp)]
         | Failure err \<Rightarrow>
             [Printf WARNING (''unable to reach url for 'charter_link' - '' @ CharterLink grp)]
         | PolicyFailure resp err \<Rightarrow>
             [Printf WARNING (''unable to reach url for 'charter_link' - '' @ CharterLink grp)])
      else
        (let charterPath = pathJoin w [pwd, Dir grp, CharterLink grp] in
         Call_Stat charterPath #
         (if notExist w charterPath
          then [Printf WARNING (''missing file for 'charter_link' - '' @ charterPath)]
          else [])))"

text \<open>The inner loop of \<^verbatim>\<open>auditWorkingGroupStakeholders\<close>: is a sig called \<open>stakeholder\<close>?\<close>

fun found_sig :: "string \<Rightarrow> Group list \<Rightarrow> bool" where
  "found_sig stakeholder [] = False"
| "found_sig stakeholder (grp # grps) =
     (if Name grp = stakeholder then True else found_sig stakeholder grps)"

definition stakeholder_not_found :: "string \<Rightarrow> event" where
  "stakeholder_not_found stakeholder =
     Printf WARNING (''stakeholder_sigs entry '' @ [CHR 0x27] @ stakeholder @ [CHR 0x27] @
                     '' not found (typo?)'')"

definition auditWorkingGroupStakeholders :: "string \<Rightarrow> Group \<Rightarrow> Context \<Rightarrow> event list" where
  "auditWorkingGroupStakeholders groupType grp ctx =
     (if groupType = ''wg'' then
        (if length (StakeholderSIGs grp) = 0 then
           [Printf WARNING ''missing 'stakeholder_sigs' key'']
         else
           concat (map (\<lambda>stakeholder.
               if found_sig stakeholder (Sigs ctx) then []
               else [stakeholder_not_found stakeholder])
             (StakeholderSIGs grp)))
      else
        (if length (StakeholderSIGs grp) > 0 then
           [Printf ERROR ''only 'workinggroups' may have stakeholder_sigs ()'']
         else []))"

subsection \<open>The name-filtered audit: owners files\<close>

definition auditOwnersInfo :: "Group \<Rightarrow> OwnersInfo \<Rightarrow> string \<Rightarrow> event list" where
  "auditOwnersInfo grp info url =
     (if length (Labels info) > 0 then
        (if length (Label grp) > 0 then
           (if list_ex (\<lambda>label. HasSuffix label (Label grp)) (Labels info) then []
            else [Printf WARNING
                    (''file does not have a label that contains with '' @ Label grp @
                     ''. Please ensure OWNERS file has labels reflecting '' @ Dir grp @
                     '' - '' @ url)])
         else [])
      else
        [Printf WARNING
           (''file at url does not have any labels. Please ensure OWNERS file has labels reflecting ''
            @ Dir grp @ '' - '' @ url)]) @
     (let allOwners = Approvers info @ Reviewers info @ RequiredReviewers info in
      if list_ex (\<lambda>item. Contains item (Label grp)) allOwners then []
      else [Printf WARNING
              (''file at url does not seem to have approvers/reviewers with the '' @
               ''sig alias (defined in OWNER_ALIASES). Please consider adding a sig alias OWNER_ALIASES and '' @
               ''add them to approvers/reviewers in this file - '' @ url)])"

definition stale :: "string \<Rightarrow> response \<Rightarrow> string option \<Rightarrow> event" where
  "stale url resp err =
     Printf WARNING
       (''stale url '' @ url @ '' - http status code = '' @ digits (StatusCode resp) @
        '' - '' @ fmt_error err)"

text \<open>
  The body of the loop of \<^verbatim>\<open>auditOwnersFiles\<close>, for one url. Where \<^verbatim>\<open>http.Get\<close> gives an
  error and a nil response, the arguments of the last \<^verbatim>\<open>Printf\<close> read
  \<^verbatim>\<open>resp.StatusCode\<close> through the nil pointer: the program panics before it prints.
\<close>

definition auditOwnersFiles_url :: "world \<Rightarrow> Group \<Rightarrow> string \<Rightarrow> run" where
  "auditOwnersFiles_url w grp url =
     (if \<not> MatchString reRawGitHubURL url \<and> \<not> MatchString reGitHubURL url then
        emit [Printf ERROR
                (''owner urls should match regexp '' @ regexRawGitHubURL @ '', found: '' @ url)]
      else
        seqs [emit [Call_Get url],
          (case httpGet w url of
             Response resp \<Rightarrow>
               if StatusCode resp = 200 then
                 emit (Call_ReadAll url #
                   (case ReadErr resp of
                      None \<Rightarrow> []
                    | Some err \<Rightarrow>
                        [Printf ERROR
                           (''unable to read owners file at '' @ url @ '' url - '' @ err)]) @
                   Call_Parse (Body resp) #
                   (case GetOwnersInfoFromBytes w (Body resp) of
                      Inl err \<Rightarrow>
                        [Printf ERROR
                           (''unable to parse owners file at '' @ url @ '' url - '' @ err)]
                    | Inr info \<Rightarrow>
                        if \<not> Contains url ''kubernetes/kubernetes'' then []
                        else auditOwnersInfo grp info url))
               else emit [stale url resp None]
           | Failure err \<Rightarrow> panic
           | PolicyFailure resp err \<Rightarrow> emit [stale url resp (Some err)])])"

fun auditOwnersFiles_loop :: "world \<Rightarrow> Group \<Rightarrow> string list \<Rightarrow> run" where
  "auditOwnersFiles_loop w grp [] = emit []"
| "auditOwnersFiles_loop w grp (url # urls) =
     seqs [auditOwnersFiles_url w grp url, auditOwnersFiles_loop w grp urls]"

definition auditOwnersFiles :: "world \<Rightarrow> Group \<Rightarrow> Subproject \<Rightarrow> run" where
  "auditOwnersFiles w grp subproject =
     seqs [
       emit ([Printf PLAIN
                (CHR 0x0A # ''>>>> Processing owners files for '' @ Dir grp @ ''/'' @
                 spName subproject)] @
             (if length (Owners subproject) = 0
              then [Printf ERROR (''subproject '' @ spName subproject @ '' has no owners'')]
              else [])),
       auditOwnersFiles_loop w grp (Owners subproject)]"

subsection \<open>The name-filtered audit: subprojects and groups\<close>

text \<open>The body of the loop of \<^verbatim>\<open>auditSubProject\<close>, for one subproject.\<close>

definition auditSubProject_one :: "world \<Rightarrow> Group \<Rightarrow> Subproject \<Rightarrow> run" where
  "auditSubProject_one w grp subproject =
     seqs [
       emit ([Printf PLAIN
                (CHR 0x0A # ''>>>> Processing subproject '' @ spName subproject @ '' under '' @
                 Dir grp)] @
             (if length (spName subproject) = 0
              then [Printf WARNING ''missing 'name' key''] else []) @
             (if length (Description subproject) = 0
              then [Printf WARNING ''missing 'description' key''] else []) @
             (case spContact subproject of
                None \<Rightarrow> [Printf WARNING ''missing 'contact' key'']
              | Some contact \<Rightarrow> auditContact contact)),
       (if length (Owners subproject) = 0
        then emit [Printf ERROR ''missing 'owners' key'']
        else auditOwnersFiles w grp subproject),
       emit (if length (spMeetings subproject) = 0
             then [Printf WARNING ''missing 'meetings' key''] else [])]"

fun auditSubProject_loop :: "world \<Rightarrow> Group \<Rightarrow> Subproject list \<Rightarrow> run" where
  "auditSubProject_loop w grp [] = emit []"
| "auditSubProject_loop w grp (subproject # subprojects) =
     seqs [auditSubProject_one w grp subproject, auditSubProject_loop w grp subprojects]"

definition auditSubProject :: "world \<Rightarrow> Group \<Rightarrow> run" where
  "auditSubProject w grp = auditSubProject_loop w grp (Subprojects grp)"

definition auditGroup :: "world \<Rightarrow> string \<Rightarrow> string \<Rightarrow> Group \<Rightarrow> Context \<Rightarrow> run" where
  "auditGroup w pwd groupType grp ctx =
     seqs [
       emit (
         (if length (Dir grp) = 0 then [Printf WARNING ''missing 'dir' key''] else []) @
         (if length (Name grp) = 0 then [Printf WARNING ''missing 'name' key''] else []) @
         [Printf PLAIN
            (CHR 0x0A # ''>>>> Processing '' @ groupType @ '' ['' @ Dir grp @ ''/'' @
             Name grp @ '']'')] @
         (let expectedDir = DirName w (Name grp) groupType in
          if expectedDir \<noteq> Dir grp
          then [Printf ERROR (''expected dir: '' @ expectedDir @ '', got: '' @ Dir grp)]
          else []) @
         (let expectedLabel = LabelName w (Name grp) groupType in
          if expectedLabel \<noteq> Label grp
          then [Printf ERROR (''expected label: '' @ expectedLabel @ '', got: '' @ Label grp)]
          else []) @
         (if groupType = ''sig'' then
            (if length (MissionStatement grp) = 0
             then [Printf ERROR ''missing 'mission_statement' key''] else []) @
            (if length (CharterLink grp) = 0
             then [Printf ERROR ''missing 'charter_link' key'']
             else auditCharterLink w pwd grp)
          else []) @
         (if groupType = ''wg''
          then auditWorkingGroupStakeholders groupType grp ctx else []) @
         (if length (Label grp) = 0 then [Printf WARNING ''missing 'label' keys''] else []) @
         auditLeadership grp groupType @
         (if length (Meetings grp) = 0 then [Printf WARNING ''missing 'meetings' key''] else []) @
         auditContact (Contact grp)),
       (if groupType = ''sig'' then
          (if length (Subprojects grp) = 0
           then emit [Printf WARNING ''missing 'subprojects' key'']
           else auditSubProject w grp)
        else emit []),
       emit (if groupType \<noteq> ''committee'' \<and> groupType \<noteq> ''sig'' then
               (if length (Subprojects grp) > 0 then
                  [Printf ERROR
                     (''only sigs and committees can own code / have subprojects, found: '' @
                      digits (length (Subprojects grp)) @ '' subprojects'')]
                else [])
             else [])]"

subsection \<open>The name-filtered audit: the command\<close>

text \<open>
  Modelled from the spec: \<^verbatim>\<open>Context.PrefixToGroupMap\<close> of package \<^verbatim>\<open>utils\<close> is not in the
  sources. It maps the tag of each of the four categories to the groups of the category;
  \<open>sig\<close>, \<open>wg\<close> and \<open>committee\<close> are the tags that \<^verbatim>\<open>auditGroup\<close> compares with.
\<close>

definition PrefixToGroupMap :: "Context \<Rightarrow> (string \<times> Group list) list" where
  "PrefixToGroupMap ctx =
     [(''sig'', Sigs ctx), (''wg'', WorkingGroups ctx), (''ug'', UserGroups ctx),
      (''committee'', Committees ctx)]"

text \<open>
  A loop that sets the variable \<^verbatim>\<open>found\<close> returns its value with the run; the next
  statement gets it, unless the run has ended.
\<close>

definition seq_found :: "run \<times> bool \<Rightarrow> (bool \<Rightarrow> run \<times> bool) \<Rightarrow> run \<times> bool" where
  "seq_found a k =
     (case snd (fst a) of
        Returned \<Rightarrow> (case k (snd a) of (r, found) \<Rightarrow> (seqs [fst a, r], found))
      | Panicked \<Rightarrow> a
      | Exited \<Rightarrow> a)"

definition selected :: "string \<Rightarrow> Group \<Rightarrow> bool" where
  "selected name grp =
     (name = ''all'' \<or> Contains (Name grp) name \<or> Contains (Dir grp) name)"

fun Run_groups ::
  "world \<Rightarrow> string \<Rightarrow> Context \<Rightarrow> string \<Rightarrow> string \<Rightarrow> Group list \<Rightarrow> bool \<Rightarrow> run \<times> bool" where
  "Run_groups w pwd ctx name groupType [] found = (emit [], found)"
| "Run_groups w pwd ctx name groupType (grp # grps) found =
     (if selected name grp then
        seq_found (auditGroup w pwd groupType grp ctx, True)
          (Run_groups w pwd ctx name groupType grps)
      else Run_groups w pwd ctx name groupType grps found)"

text \<open>
  Go does not specify the order in which \<^verbatim>\<open>range\<close> visits the keys of a map, and the
  runtime varies it from one loop to the next. The order is a parameter: \<open>groupTypes\<close>
  lists the keys as this execution of the loop visits them.
\<close>

fun Run_types ::
  "world \<Rightarrow> string \<Rightarrow> Context \<Rightarrow> string \<Rightarrow> string list \<Rightarrow> bool \<Rightarrow> run \<times> bool" where
  "Run_types w pwd ctx name [] found = (emit [], found)"
| "Run_types w pwd ctx name (groupType # groupTypes) found =
     seq_found
       (case map_of (PrefixToGroupMap ctx) groupType of
          None \<Rightarrow> (emit [], found)
        | Some grps \<Rightarrow> Run_groups w pwd ctx name groupType grps found)
       (Run_types w pwd ctx name groupTypes)"

text \<open>The loop over the arguments; \<open>order i\<close> is the key order of the map loop of argument \<open>i\<close>.\<close>

fun Run_names ::
  "world \<Rightarrow> string \<Rightarrow> Context \<Rightarrow> (nat \<Rightarrow> string list) \<Rightarrow> nat \<Rightarrow> string list \<Rightarrow> run" where
  "Run_names w pwd ctx order i [] = emit []"
| "Run_names w pwd ctx order i (name # names) =
     (case Run_types w pwd ctx name (order i) False of
        (r, found) \<Rightarrow>
          seqs [r,
                emit (if found then [] else [Printf PLAIN (''['' @ name @ ''] not found'')]),
                Run_names w pwd ctx order (Suc i) names])"

text \<open>
  \<^verbatim>\<open>auditCmd.Run\<close>, from the first line on, for a working directory and a parsed
  \<^verbatim>\<open>sigs.yaml\<close> that were found (finding and parsing them is not part of the audit);
  \<open>now\<close> is the formatted reading of the clock.
\<close>

definition Run ::
  "world \<Rightarrow> string \<Rightarrow> string \<Rightarrow> string \<Rightarrow> Context \<Rightarrow> (nat \<Rightarrow> string list) \<Rightarrow> string list \<Rightarrow> run" where
  "Run w now kubernetesDirectory pwd ctx order args =
     seqs [
       emit [Printf PLAIN (''Running script : '' @ now), Call_Stat kubernetesDirectory],
       (if notExist w kubernetesDirectory then
          ([Printf PLAIN
              (''please use --kubernetes-directory to set the path to the kubernetes directory. '' @
               kubernetesDirectory @ '' does not exist'')], Exited)
        else emit []),
       Run_names w pwd ctx order 0 args,
       emit [Printf PLAIN ''Done.'']]"

subsection \<open>The unconditional audit\<close>

definition auditPerson_uncond ::
  "world \<Rightarrow> Group \<Rightarrow> string \<Rightarrow> string \<Rightarrow> Person \<Rightarrow> event list" where
  "auditPerson_uncond w grp groupType extra person =
     (if length (pName person) = 0
      then [Printf WARNING (''missing '' @ extra @ '' name for '' @ fmtPerson w person @
                            '' for '' @ groupType @ ''/'' @ Dir grp)]
      else []) @
     (if length (GitHub person) = 0
      then [Printf WARNING (''missing '' @ extra @ '' github id for '' @ fmtPerson w person @
                            '' for '' @ groupType @ ''/'' @ Dir grp)]
      else []) @
     (if length (Company person) = 0
      then [Printf WARNING (''missing '' @ extra @ '' company for '' @ fmtPerson w person @
                            '' for '' @ groupType @ ''/'' @ Dir grp)]
      else [])"

definition auditContact_uncond :: "world \<Rightarrow> Contact \<Rightarrow> string \<Rightarrow> Group \<Rightarrow> event list" where
  "auditContact_uncond w contact groupType grp =
     (if length (Slack contact) = 0
      then [Printf WARNING (''missing 'slack' for '' @ groupType @ ''/'' @ Dir grp @
                            '' under contact'')]
      else []) @
     (if length (MailingList contact) = 0
      then [Printf WARNING (''missing 'mailing_list' for '' @ groupType @ ''/'' @ Dir grp @
                            '' under contact'')]
      else []) @
     (if length (PrivateMailingList contact) = 0
      then [Printf WARNING (''missing 'private_mailing_list' for '' @ groupType @ ''/'' @
                            Dir grp @ '' under contact'')]
      else []) @
     (if length (GithubTeams contact) = 0
      then [Printf WARNING (''missing 'teams' for '' @ groupType @ ''/'' @ Dir grp @
                            '' under contact'')]
      else []) @
     (case Liaison contact of
        None \<Rightarrow> []
      | Some liaison \<Rightarrow> auditPerson_uncond w grp groupType ''contact/liaison'' liaison)"

definition auditCharterLink_uncond :: "world \<Rightarrow> string \<Rightarrow> string \<Rightarrow> Group \<Rightarrow> event list" where
  "auditCharterLink_uncond w pwd groupType grp =
     (if HasPrefix (CharterLink grp) ''http'' then
        Call_Get (CharterLink grp) #
        (case httpGet w (CharterLink grp) of
           Response resp \<Rightarrow>
             if StatusCode resp = 200 then []
             else [Printf WARNING (''unable to reach url '' @ CharterLink grp @ '' for '' @
                                   groupType @ ''/'' @ Dir grp)]
         | Failure err \<Rightarrow>
             [Printf WARNING (''unable to reach url '' @ CharterLink grp @ '' for '' @
                              groupType @ ''/'' @ Dir grp)]
         | PolicyFailure resp err \<Rightarrow>
             [Printf WARNING (''unable to reach url '' @ CharterLink grp @ '' for '' @
                              groupType @ ''/'' @ Dir grp)])
      else
        (let charterPath = pathJoin w [pwd, Dir grp, CharterLink grp] in
         Call_Stat charterPath #
         (if notExist w charterPath
          then [Printf WARNING (''missing file '' @ charterPath @ '' for '' @ groupType @
                                ''/'' @ Dir grp)]
          else [])))"

definition auditWorkingGroupStakeholders_uncond ::
  "Group \<Rightarrow> string \<Rightarrow> Context \<Rightarrow> event list" where
  "auditWorkingGroupStakeholders_uncond grp groupType ctx =
     (if length (StakeholderSIGs grp) = 0 then
        [Printf WARNING (''missing 'stakeholder_sigs' for '' @ groupType @ ''/'' @ Dir grp)]
      else
        concat (map (\<lambda>stakeholder.
            if found_sig stakeholder (Sigs ctx) then []
            else [Printf WARNING
                    (''stakeholder_sigs entry '' @ [CHR 0x27] @ stakeholder @ [CHR 0x27] @
                     '' not found for '' @ groupType @ ''/'' @ Dir grp)])
          (StakeholderSIGs grp)))"

definition auditLeadership_uncond :: "world \<Rightarrow> Group \<Rightarrow> string \<Rightarrow> event list" where
  "auditLeadership_uncond w grp groupType =
     (if length (Chairs (Leadership grp)) = 0 then
        [Printf WARNING (''missing 'leadership/chairs' for '' @ groupType @ ''/'' @ Dir grp)] @
        (if groupType = ''sigs'' then
           (if length (Chairs (Leadership grp)) = 1 then
              [Printf WARNING
                 (''please consider adding more folks in 'leadership/chairs' for '' @
                  groupType @ ''/'' @ Dir grp)]
            else [])
         else [])
      else []) @
     (if length (TechnicalLeads (Leadership grp)) = 0 then
        [Printf WARNING
           (''missing 'leadership/tech_leads' for '' @ groupType @ ''/'' @ Dir grp)] @
        (if groupType = ''sigs'' then
           [Printf WARNING
              (''if chairs are serving as tech leads, please add them explicitly in 'leadership/tech_leads' for ''
               @ groupType @ ''/'' @ Dir grp)]
         else [])
      else []) @
     concat (map (auditPerson_uncond w grp groupType ''leadership'')
       (Chairs (Leadership grp) @ TechnicalLeads (Leadership grp) @
        EmeritusLeads (Leadership grp)))"

text \<open>The body of the loop of \<^verbatim>\<open>auditSubProject\<close> of the unconditional audit.\<close>

definition auditSubProject_one_uncond ::
  "world \<Rightarrow> Group \<Rightarrow> string \<Rightarrow> Subproject \<Rightarrow> event list" where
  "auditSubProject_one_uncond w grp groupType subproject =
     (let extra = ''['' @ spName subproject @ ''/'' @ Description subproject @ '']'' in
      (if length (spName subproject) = 0
       then [Printf WARNING (''missing name for subproject '' @ extra @
                             '' for a group under '' @ groupType @ ''/'' @ Dir grp)]
       else []) @
      (if length (Description subproject) = 0
       then [Printf WARNING (''missing description for subproject '' @ extra @
                             '' for a group under '' @ groupType @ ''/'' @ Dir grp)]
       else []) @
      (case spContact subproject of
         None \<Rightarrow> [Printf WARNING (''missing contact for subproject '' @ extra @
                                  '' for a group under '' @ groupType @ ''/'' @ Dir grp)]
       | Some contact \<Rightarrow> auditContact_uncond w contact groupType grp) @
      (if length (Owners subproject) = 0
       then [Printf WARNING (''missing owners for subproject '' @ extra @
                             '' for a group under '' @ groupType @ ''/'' @ Dir grp)]
       else []) @
      (if length (spMeetings subproject) = 0
       then [Printf WARNING (''missing meetings for subproject '' @ extra @
                             '' for a group under '' @ groupType @ ''/'' @ Dir grp)]
       else []))"

definition auditSubProject_uncond :: "world \<Rightarrow> Group \<Rightarrow> string \<Rightarrow> event list" where
  "auditSubProject_uncond w grp groupType =
     concat (map (auditSubProject_one_uncond w grp groupType) (Subprojects grp))"

definition auditGroup_uncond ::
  "world \<Rightarrow> string \<Rightarrow> string \<Rightarrow> Group \<Rightarrow> Context \<Rightarrow> event list" where
  "auditGroup_uncond w pwd groupType grp ctx =
     (if length (Dir grp) = 0
      then [Printf WARNING (''missing 'dir' for a group under '' @ groupType @ ''/'' @ Name grp)]
      else []) @
     (if length (Name grp) = 0
      then [Printf WARNING (''missing 'name' for a group under '' @ groupType @ ''/'' @ Dir grp)]
      else []) @
     [Printf PLAIN (''>>>> Processing '' @ groupType @ '' ['' @ Dir grp @ ''/'' @ Name grp @ '']'')] @
     (if length (MissionStatement grp) = 0
      then [Printf WARNING (''missing 'mission_statement' for '' @ groupType @ ''/'' @ Dir grp)]
      else []) @
     (if length (CharterLink grp) = 0
      then [Printf WARNING (''missing 'charter_link' for '' @ groupType @ ''/'' @ Dir grp)]
      else auditCharterLink_uncond w pwd groupType grp) @
     (if groupType = ''workinggroups''
      then auditWorkingGroupStakeholders_uncond grp groupType ctx else []) @
     (if length (Label grp) = 0
      then [Printf WARNING (''missing 'label' for '' @ groupType @ ''/'' @ Dir grp)]
      else []) @
     auditLeadership_uncond w grp groupType @
     (if length (Meetings grp) = 0
      then [Printf WARNING (''missing 'meetings' for '' @ groupType @ ''/'' @ Dir grp)]
      else []) @
     auditContact_uncond w (Contact grp) groupType grp @
     (if length (Subprojects grp) = 0
      then [Printf WARNING (''missing 'subprojects' for a group under '' @ groupType @ ''/'' @
                            Dir grp)]
      else auditSubProject_uncond w grp groupType)"

definition groupMap :: "Context \<Rightarrow> (string \<times> Group list) list" where
  "groupMap ctx =
     [(''sigs'', Sigs ctx), (''usergroups'', UserGroups ctx),
      (''workinggroups'', WorkingGroups ctx), (''committees'', Committees ctx)]"

text \<open>
  \<^verbatim>\<open>auditCmd.Run\<close> of the unconditional audit, for a working directory and a parsed
  \<^verbatim>\<open>sigs.yaml\<close> that were found; \<open>groupTypes\<close> is the order in which the loop visits the
  keys of \<^verbatim>\<open>groupMap\<close>.
\<close>

definition Run_uncond ::
  "world \<Rightarrow> string \<Rightarrow> string \<Rightarrow> Context \<Rightarrow> string list \<Rightarrow> event list" where
  "Run_uncond w now pwd ctx groupTypes =
     [Printf PLAIN (''Running script : '' @ now)] @
     concat (map (\<lambda>groupType.
         case map_of (groupMap ctx) groupType of
           None \<Rightarrow> []
         | Some grps \<Rightarrow>
             concat (map (\<lambda>grp. auditGroup_uncond w pwd groupType grp ctx) grps))
       groupTypes) @
     [Printf PLAIN ''Done.'']"

subsection \<open>Notions used to state the properties\<close>

text \<open>
  The first six characters of a printed text tell the messages of the audit apart,
  whatever names they carry.
\<close>

definition tag :: "event \<Rightarrow> string" where
  "tag ev = (case ev of Printf sev text \<Rightarrow> take 6 text | _ \<Rightarrow> [])"

text \<open>
  The repository of an owner url, in the words of the specification: the \<open>(org)/(repo)\<close>
  of the two accepted shapes, that is, the two path parts that follow the host.
\<close>

definition url_repository :: "string \<Rightarrow> string" where
  "url_repository url =
     (let path =
        (if HasPrefix url ''https://raw.githubusercontent.com/''
         then drop (length ''https://raw.githubusercontent.com/'') url
         else if HasPrefix url ''https://github.com/''
         then drop (length ''https://github.com/'') url
         else []);
        org = takeWhile (\<lambda>c. c \<noteq> CHR ''/'') path;
        repo = takeWhile (\<lambda>c. c \<noteq> CHR ''/'') (drop (Suc (length org)) path)
      in org @ ''/'' @ repo)"

text \<open>
  The groups that a name selects, each with its category, in the order of the audit:
  category by category as \<open>groupTypes\<close> lists them, and within a category in the order of
  its list.
\<close>

definition selection :: "Context \<Rightarrow> string \<Rightarrow> string list \<Rightarrow> (string \<times> Group) list" where
  "selection ctx name groupTypes =
     concat (map (\<lambda>groupType.
         case map_of (PrefixToGroupMap ctx) groupType of
           None \<Rightarrow> []
         | Some grps \<Rightarrow> map (Pair groupType) (filter (selected name) grps))
       groupTypes)"

definition audits :: "world \<Rightarrow> string \<Rightarrow> Context \<Rightarrow> (string \<times> Group) list \<Rightarrow> event list" where
  "audits w pwd ctx sel =
     concat (map (\<lambda>(groupType, grp). fst (auditGroup w pwd groupType grp ctx)) sel)"

text \<open>What the audit does for argument number \<open>i\<close>, when no group audit panics.\<close>

definition report ::
  "world \<Rightarrow> string \<Rightarrow> Context \<Rightarrow> (nat \<Rightarrow> string list) \<Rightarrow> nat \<times> string \<Rightarrow> event list" where
  "report w pwd ctx order a =
     (case a of (i, name) \<Rightarrow>
        audits w pwd ctx (selection ctx name (order i)) @
        (if selection ctx name (order i) = []
         then [Printf PLAIN (''['' @ name @ ''] not found'')] else []))"

definition selection_uncond :: "Context \<Rightarrow> string list \<Rightarrow> (string \<times> Group) list" where
  "selection_uncond ctx groupTypes =
     concat (map (\<lambda>groupType.
         case map_of (groupMap ctx) groupType of
           None \<Rightarrow> []
         | Some grps \<Rightarrow> map (Pair groupType) grps)
       groupTypes)"

text \<open>
  The checks of \<^verbatim>\<open>auditGroup\<close> that come before its subproject rule: the lines of the
  function from its start to the call of \<^verbatim>\<open>auditContact\<close>.
\<close>

definition auditGroup_fields ::
  "world \<Rightarrow> string \<Rightarrow> string \<Rightarrow> Group \<Rightarrow> Context \<Rightarrow> event list" where
  "auditGroup_fields w pwd groupType grp ctx =
     (if length (Dir grp) = 0 then [Printf WARNING ''missing 'dir' key''] else []) @
     (if length (Name grp) = 0 then [Printf WARNING ''missing 'name' key''] else []) @
     [Printf PLAIN
        (CHR 0x0A # ''>>>> Processing '' @ groupType @ '' ['' @ Dir grp @ ''/'' @
         Name grp @ '']'')] @
     (let expectedDir = DirName w (Name grp) groupType in
      if expectedDir \<noteq> Dir grp
      then [Printf ERROR (''expected dir: '' @ expectedDir @ '', got: '' @ Dir grp)]
      else []) @
     (let expectedLabel = LabelName w (Name grp) groupType in
      if expectedLabel \<noteq> Label grp
      then [Printf ERROR (''expected label: '' @ expectedLabel @ '', got: '' @ Label grp)]
      else []) @
     (if groupType = ''sig'' then
        (if length (MissionStatement grp) = 0
         then [Printf ERROR ''missing 'mission_statement' key''] else []) @
        (if length (CharterLink grp) = 0
         then [Printf ERROR ''missing 'charter_link' key'']
         else auditCharterLink w pwd grp)
      else []) @
     (if groupType = ''wg''
      then auditWorkingGroupStakeholders groupType grp ctx else []) @
     (if length (Label grp) = 0 then [Printf WARNING ''missing 'label' keys''] else []) @
     auditLeadership grp groupType @
     (if length (Meetings grp) = 0 then [Printf WARNING ''missing 'meetings' key''] else []) @
     auditContact (Contact grp)"

text \<open>The ERROR lines of an output, in order.\<close>

definition is_ERROR :: "event \<Rightarrow> bool" where
  "is_ERROR ev = (case ev of Printf sev text \<Rightarrow> sev = ERROR | _ \<Rightarrow> False)"

definition errors :: "event list \<Rightarrow> event list" where
  "errors es = filter is_ERROR es"

subsection \<open>Example inputs\<close>

definition ex_person :: Person where
  "ex_person = \<lparr>pName = ''Alice'', GitHub = ''alice'', Company = ''Acme''\<rparr>"

definition ex_contact :: Contact where
  "ex_contact = \<lparr>Slack = ''apps'', MailingList = ''https://groups.example/apps'',
     PrivateMailingList = ''apps-private'', GithubTeams = [''sig-apps-leads''],
     Liaison = None\<rparr>"

text \<open>A sig with exactly one chair, and nothing missing but its subprojects.\<close>

definition ex_group :: Group where
  "ex_group = \<lparr>Dir = ''sig-apps'', Name = ''apps'', Label = ''apps'',
     MissionStatement = ''Covers deploying and operating applications.'',
     CharterLink = ''charter.md'', StakeholderSIGs = [],
     Leadership = \<lparr>Chairs = [ex_person], TechnicalLeads = [ex_person], EmeritusLeads = []\<rparr>,
     Meetings = [''weekly''], Contact = ex_contact, Subprojects = []\<rparr>"

definition ex_committee :: Group where
  "ex_committee =
     ex_group\<lparr>Dir := ''committee-steering'', Name := ''steering'', Label := ''steering''\<rparr>"

definition ex_wg :: Group where
  "ex_wg = ex_group\<lparr>Dir := ''wg-policy'', Name := ''policy'', Label := ''policy'',
     StakeholderSIGs := [''apps'']\<rparr>"

text \<open>A subproject without owners.\<close>

definition ex_subproject :: Subproject where
  "ex_subproject = \<lparr>spName = ''kubectl'', Description = ''The command line client'',
     spContact = Some ex_contact, Owners = [], spMeetings = [''biweekly'']\<rparr>"

text \<open>A user group that declares a stakeholder sig and one subproject.\<close>

definition ex_ug :: Group where
  "ex_ug = ex_group\<lparr>Dir := ''ug-vmware'', Name := ''vmware'', Label := ''vmware'',
     StakeholderSIGs := [''apps''], Subprojects := [ex_subproject]\<rparr>"

definition ex_context :: Context where
  "ex_context = \<lparr>Sigs = [ex_group], WorkingGroups = [ex_wg], UserGroups = [],
     Committees = [ex_committee]\<rparr>"

text \<open>
  A world with three owners files that answer 200, one that answers 404, and no other
  host; every file exists; an owners file lists its whole text as its one approver.
\<close>

definition ex_world :: world where
  "ex_world = \<lparr>
     httpGet = (\<lambda>url.
       if url = ''https://raw.githubusercontent.com/kubernetes/kubernetes/master/OWNERS''
       then Response \<lparr>StatusCode = 200, Body = ''sig-apps-approvers'', ReadErr = None\<rparr>
       else if url =
         ''https://raw.githubusercontent.com/kubernetes/kubernetes-template-project/master/OWNERS''
       then Response \<lparr>StatusCode = 200, Body = ''template-approvers'', ReadErr = None\<rparr>
       else if url = ''https://raw.githubusercontent.com/kubernetes-sigs/kustomize/master/OWNERS''
       then Response \<lparr>StatusCode = 200, Body = ''kustomize-approvers'', ReadErr = None\<rparr>
       else if url = ''https://github.com/kubernetes/kubernetes/blob/master/OWNERS''
       then Response \<lparr>StatusCode = 404, Body = [], ReadErr = None\<rparr>
       else Failure ''no such host''),
     notExist = (\<lambda>p. False),
     GetOwnersInfoFromBytes = (\<lambda>bytes.
       if bytes = [] then Inl ''empty file''
       else Inr \<lparr>Labels = [], Approvers = [bytes], Reviewers = [], RequiredReviewers = []\<rparr>),
     DirName = (\<lambda>name groupType. groupType @ ''-'' @ name),
     LabelName = (\<lambda>name groupType. name),
     pathJoin = (\<lambda>ps. case ps of [] \<Rightarrow> [] | p # qs \<Rightarrow> p @ concat (map (\<lambda>q. CHR ''/'' # q) qs)),
     fmtPerson = pName\<rparr>"

section \<open>Properties\<close>

subsection \<open>The library functions\<close>

lemma HasPrefix_prefix: "HasPrefix s p \<longleftrightarrow> prefix p s"
  by (induction s p rule: HasPrefix.induct) auto

lemma HasSuffix_suffix: "HasSuffix s p \<longleftrightarrow> suffix p s"
  by (simp add: HasSuffix_def HasPrefix_prefix suffix_to_prefix)

lemma Contains_sublist: "Contains s t \<longleftrightarrow> sublist t s"
  by (induction s) (auto simp: HasPrefix_prefix sublist_Cons_right)

lemma Contains_Nil: "Contains s []"
  by (cases s) auto

lemma digits_1: "digits (Suc 0) = ''1''"
  by code_simp

lemma tag_simps [simp]:
  "tag (Printf sev text) = take 6 text" "tag (Call_Get u) = []" "tag (Call_ReadAll u) = []"
  "tag (Call_Parse u) = []" "tag (Call_Stat u) = []"
  by (simp_all add: tag_def)

subsection \<open>The pattern matcher computes the language of the pattern\<close>

lemma after_star_self: "s \<in> set (after_star k s)"
  by (cases s) auto

lemma after_star_iff:
  "t \<in> set (after_star k s) \<longleftrightarrow> (\<exists>u. list_all (in_class k) u \<and> s = u @ t)"
proof (induction s)
  case Nil
  then show ?case by auto
next
  case (Cons c cs)
  show ?case
  proof
    assume "t \<in> set (after_star k (c # cs))"
    then consider "t = c # cs" | "in_class k c" "t \<in> set (after_star k cs)"
      by (auto split: if_splits)
    then show "\<exists>u. list_all (in_class k) u \<and> c # cs = u @ t"
    proof cases
      case 1
      then show ?thesis by (intro exI[of _ "[]"]) simp
    next
      case 2
      then obtain u where "list_all (in_class k) u" "cs = u @ t" using Cons.IH by blast
      with 2 show ?thesis by (intro exI[of _ "c # u"]) simp
    qed
  next
    assume "\<exists>u. list_all (in_class k) u \<and> c # cs = u @ t"
    then obtain u where u: "list_all (in_class k) u" "c # cs = u @ t" by blast
    show "t \<in> set (after_star k (c # cs))"
    proof (cases u)
      case Nil
      with u show ?thesis using after_star_self[of "c # cs" k] by simp
    next
      case (Cons a v)
      with u have "a = c" "cs = v @ t" "in_class k c" "list_all (in_class k) v" by auto
      with Cons.IH show ?thesis by auto
    qed
  qed
qed

lemma rests_lang: "t \<in> set (rests r s) \<longleftrightarrow> (\<exists>u. u \<in> lang r \<and> s = u @ t)"
proof (induction r arbitrary: s t)
  case (Str p)
  show ?case by (auto simp: HasPrefix_prefix prefix_def)
next
  case (One k)
  show ?case by (cases s) auto
next
  case (Star k)
  show ?case by (simp add: after_star_iff)
next
  case (Plus k)
  show ?case
  proof (cases s)
    case Nil
    then show ?thesis by auto
  next
    case (Cons c cs)
    show ?thesis
    proof
      assume "t \<in> set (rests (Plus k) s)"
      with Cons have "in_class k c" "t \<in> set (after_star k cs)" by (auto split: if_splits)
      then obtain u where "list_all (in_class k) u" "cs = u @ t" by (auto simp: after_star_iff)
      with \<open>in_class k c\<close> Cons show "\<exists>u. u \<in> lang (Plus k) \<and> s = u @ t"
        by (intro exI[of _ "c # u"]) simp
    next
      assume "\<exists>u. u \<in> lang (Plus k) \<and> s = u @ t"
      then obtain u where u: "u \<noteq> []" "list_all (in_class k) u" "s = u @ t" by auto
      then obtain a v where "u = a # v" by (cases u) auto
      with u Cons have "a = c" "cs = v @ t" "in_class k c" "list_all (in_class k) v" by auto
      then show "t \<in> set (rests (Plus k) s)" using Cons by (auto simp: after_star_iff)
    qed
  qed
next
  case (Seq a b)
  show ?case
  proof
    assume "t \<in> set (rests (Seq a b) s)"
    then obtain m where "m \<in> set (rests a s)" "t \<in> set (rests b m)" by auto
    then obtain x y where "x \<in> lang a" "s = x @ m" "y \<in> lang b" "m = y @ t"
      using Seq.IH by blast
    then show "\<exists>u. u \<in> lang (Seq a b) \<and> s = u @ t"
      by (intro exI[of _ "x @ y"]) auto
  next
    assume "\<exists>u. u \<in> lang (Seq a b) \<and> s = u @ t"
    then obtain x y where xy: "x \<in> lang a" "y \<in> lang b" "s = (x @ y) @ t" by auto
    then have "y @ t \<in> set (rests a s)" using Seq.IH(1) by auto
    moreover have "t \<in> set (rests b (y @ t))" using xy Seq.IH(2) by auto
    ultimately show "t \<in> set (rests (Seq a b) s)" by auto
  qed
next
  case (Alt a b)
  show ?case using Alt.IH by auto
qed

text \<open>\<open>MatchString\<close> holds exactly when some part of the string is in the language.\<close>

lemma MatchString_lang:
  "MatchString re s \<longleftrightarrow> (\<exists>u v t. s = u @ v @ t \<and> v \<in> lang re)"
proof
  assume "MatchString re s"
  then obtain m where m: "suffix m s" "rests re m \<noteq> []"
    by (auto simp: MatchString_def list_ex_iff)
  then obtain t where "t \<in> set (rests re m)"
    by (cases "rests re m") auto
  with m(1) obtain u v where "s = u @ m" "v \<in> lang re" "m = v @ t"
    by (auto simp: suffix_def rests_lang)
  then show "\<exists>u v t. s = u @ v @ t \<and> v \<in> lang re" by blast
next
  assume "\<exists>u v t. s = u @ v @ t \<and> v \<in> lang re"
  then obtain u v t where "s = u @ v @ t" "v \<in> lang re" by blast
  then have "suffix (v @ t) s" "t \<in> set (rests re (v @ t))"
    by (auto simp: suffix_def rests_lang)
  then have "v @ t \<in> set (suffixes s)" "rests re (v @ t) \<noteq> []"
    by auto
  then show "MatchString re s"
    unfolding MatchString_def list_ex_iff by blast
qed

subsection \<open>Sequencing\<close>

lemma seqs_single [simp]: "seqs [r] = r"
  by (cases r, cases "snd r") auto

lemma seqs_Returned [simp]: "seqs ((es, Returned) # rs) = (es @ fst (seqs rs), snd (seqs rs))"
  by simp

lemma seqs_Panicked [simp]: "seqs ((es, Panicked) # rs) = (es, Panicked)"
  by simp

lemma seqs_Exited [simp]: "seqs ((es, Exited) # rs) = (es, Exited)"
  by simp

lemma seqs_Cons:
  "seqs (r # rs) = (if snd r = Returned then (fst r @ fst (seqs rs), snd (seqs rs)) else r)"
  by (cases "snd r") auto

declare seqs.simps(2) [simp del]

lemma seqs_Returned_iff:
  "snd (seqs (r # rs)) = Returned \<longleftrightarrow> snd r = Returned \<and> snd (seqs rs) = Returned"
  by (cases "snd r") (auto simp: seqs_Cons)

lemma set_fst_seqs2:
  "ev \<in> set (fst (seqs [a, b])) \<Longrightarrow> ev \<in> set (fst a) \<or> ev \<in> set (fst b)"
  by (auto simp: seqs_Cons split: if_splits)

lemma seq_found_Returned:
  "snd (fst (seq_found a k)) = Returned \<longleftrightarrow>
     snd (fst a) = Returned \<and> snd (fst (k (snd a))) = Returned"
  by (cases a, cases "snd (fst a)")
     (auto simp: seq_found_def seqs_Cons split: prod.splits)

lemma seq_found_fst:
  "snd (fst (seq_found a k)) = Returned \<Longrightarrow>
     fst (fst (seq_found a k)) = fst (fst a) @ fst (fst (k (snd a))) \<and>
     snd (seq_found a k) = snd (k (snd a))"
  by (cases a, cases "snd (fst a)")
     (auto simp: seq_found_def seqs_Cons split: prod.splits if_splits)

subsection \<open>Leadership\<close>

lemma tag_auditPerson: "ev \<in> set (auditPerson extra person) \<Longrightarrow> tag ev = ''missin''"
  by (auto simp: auditPerson_def split: if_splits)

lemma tag_auditPerson_uncond:
  "ev \<in> set (auditPerson_uncond w grp groupType extra person) \<Longrightarrow> tag ev = ''missin''"
  by (auto simp: auditPerson_uncond_def split: if_splits)

text \<open>
  Claim C1. For a sig, exactly one chair should add a WARNING that suggests more chairs;
  zero chairs gives the missing-chairs WARNING only, and two or more chairs give neither.

  The code tests for exactly one chair inside the branch that has found zero chairs, so
  the test never holds. In both versions of the audit the suggestion is printed for no
  group and no category: the claim fails for the sig with one chair, which gets no
  WARNING about its chairs at all.
\<close>

theorem auditLeadership_never_suggests:
  "Printf WARNING ''please consider adding more folks in as 'chairs' (in 'leadership' section)''
     \<notin> set (auditLeadership grp groupType) \<and>
   Printf WARNING (''please consider adding more folks in 'leadership/chairs' for '' @
                   groupType @ ''/'' @ Dir grp)
     \<notin> set (auditLeadership_uncond w grp groupType)"
  by (auto simp: auditLeadership_def auditLeadership_uncond_def split: if_splits
      dest!: tag_auditPerson tag_auditPerson_uncond)

text \<open>The sig \<open>ex_group\<close> has one chair, and its leadership gets no line in either version.\<close>

theorem auditLeadership_never_suggests_witness:
  "length (Chairs (Leadership ex_group)) = 1 \<and>
   auditLeadership ex_group ''sig'' = [] \<and>
   auditLeadership_uncond ex_world ex_group ''sigs'' = []"
  using auditLeadership_never_suggests[of ex_group "''sig''" ex_world]
  by (simp add: auditLeadership_def auditPerson_def auditLeadership_uncond_def
      auditPerson_uncond_def ex_group_def ex_person_def)

subsection \<open>Stakeholders of a working group\<close>





text \<open>In a category other than \<open>wg\<close> the function itself reports a stakeholder list.\<close>

lemma auditWorkingGroupStakeholders_other:
  "groupType \<noteq> ''wg'' \<Longrightarrow>
   auditWorkingGroupStakeholders groupType grp ctx =
     (if StakeholderSIGs grp = [] then []
      else [Printf ERROR ''only 'workinggroups' may have stakeholder_sigs ()''])"
  by (simp add: auditWorkingGroupStakeholders_def)

subsection \<open>The parsed owners file against the label of the group\<close>

text \<open>
  Claim C10. For a group whose label is empty: a file that declares labels gets no
  label WARNING, a file that declares none gets the missing-labels WARNING, and the
  alias WARNING is printed exactly when the file has no approver, reviewer or required
  reviewer, since every string contains the empty string.
\<close>

theorem auditOwnersInfo_empty_label:
  assumes "Label grp = []"
  shows "auditOwnersInfo grp info url =
     (if Labels info = [] then
        [Printf WARNING
           (''file at url does not have any labels. Please ensure OWNERS file has labels reflecting ''
            @ Dir grp @ '' - '' @ url)]
      else []) @
     (if Approvers info @ Reviewers info @ RequiredReviewers info = [] then
        [Printf WARNING
           (''file at url does not seem to have approvers/reviewers with the '' @
            ''sig alias (defined in OWNER_ALIASES). Please consider adding a sig alias OWNER_ALIASES and '' @
            ''add them to approvers/reviewers in this file - '' @ url)]
      else [])"
proof -
  have "list_ex (\<lambda>item. Contains item (Label grp)) xs \<longleftrightarrow> xs \<noteq> []" for xs
    using assms by (cases xs) (simp_all add: Contains_Nil)
  then show ?thesis
    using assms by (simp add: auditOwnersInfo_def Let_def)
qed

text \<open>A file with labels and one reviewer gets nothing; a file with neither gets both.\<close>

theorem auditOwnersInfo_empty_label_witness:
  "auditOwnersInfo (ex_group\<lparr>Label := []\<rparr>)
     \<lparr>Labels = [''sig/network''], Approvers = [], Reviewers = [''bob''], RequiredReviewers = []\<rparr>
     ''u'' = [] \<and>
   auditOwnersInfo (ex_group\<lparr>Label := []\<rparr>)
     \<lparr>Labels = [], Approvers = [], Reviewers = [], RequiredReviewers = []\<rparr> ''u'' =
     [Printf WARNING ''file at url does not have any labels. Please ensure OWNERS file has labels reflecting sig-apps - u'',
      Printf WARNING ''file at url does not seem to have approvers/reviewers with the sig alias (defined in OWNER_ALIASES). Please consider adding a sig alias OWNER_ALIASES and add them to approvers/reviewers in this file - u'']"
  using auditOwnersInfo_empty_label
    [of "ex_group\<lparr>Label := []\<rparr>"
        "\<lparr>Labels = [''sig/network''], Approvers = [], Reviewers = [''bob''],
          RequiredReviewers = []\<rparr>" "''u''"]
    auditOwnersInfo_empty_label
    [of "ex_group\<lparr>Label := []\<rparr>"
        "\<lparr>Labels = [], Approvers = [], Reviewers = [], RequiredReviewers = []\<rparr>" "''u''"]
  by (simp add: ex_group_def)

subsection \<open>Owner urls\<close>

text \<open>
  Claim C5. An owner url is first matched against the two patterns, the raw-content
  shape and the blob/tree shape. A url that matches neither prints one ERROR, no request
  is made for it, and the loop goes on with the next url. The two urls of
  \<open>kubernetes/kubernetes\<close> match, each its own pattern, and \<open>https://example.com/OWNERS\<close>
  matches neither.
\<close>

theorem auditOwnersFiles_url_shape:
  "(\<not> MatchString reRawGitHubURL url \<and> \<not> MatchString reGitHubURL url \<longrightarrow>
      auditOwnersFiles_url w grp url =
        ([Printf ERROR
            (''owner urls should match regexp '' @ regexRawGitHubURL @ '', found: '' @ url)],
         Returned) \<and>
      auditOwnersFiles_loop w grp (url # urls) =
        (Printf ERROR
           (''owner urls should match regexp '' @ regexRawGitHubURL @ '', found: '' @ url) #
         fst (auditOwnersFiles_loop w grp urls),
         snd (auditOwnersFiles_loop w grp urls))) \<and>
   MatchString reRawGitHubURL
     ''https://raw.githubusercontent.com/kubernetes/kubernetes/master/OWNERS'' \<and>
   MatchString reGitHubURL ''https://github.com/kubernetes/kubernetes/blob/master/OWNERS'' \<and>
   \<not> MatchString reRawGitHubURL ''https://example.com/OWNERS'' \<and>
   \<not> MatchString reGitHubURL ''https://example.com/OWNERS''"
proof -
  have a: "MatchString reRawGitHubURL
             ''https://raw.githubusercontent.com/kubernetes/kubernetes/master/OWNERS''"
    by code_simp
  have b: "MatchString reGitHubURL ''https://github.com/kubernetes/kubernetes/blob/master/OWNERS''"
    by code_simp
  have c: "\<not> MatchString reRawGitHubURL ''https://example.com/OWNERS''"
    by code_simp
  have d: "\<not> MatchString reGitHubURL ''https://example.com/OWNERS''"
    by code_simp
  show ?thesis using a b c d by (simp add: auditOwnersFiles_url_def emit_def)
qed

text \<open>The url \<open>https://example.com/OWNERS\<close> gets its ERROR and no \<open>Call_Get\<close>.\<close>

theorem auditOwnersFiles_url_shape_witness:
  "auditOwnersFiles_url ex_world ex_group ''https://example.com/OWNERS'' =
     ([Printf ERROR ''owner urls should match regexp https://raw.githubusercontent.com/(?P<org>[^/]+)/(?P<repo>[^/]+)/(?P<branch>[^/]+)/(?P<path>.*), found: https://example.com/OWNERS''],
      Returned)"
  using auditOwnersFiles_url_shape[of "''https://example.com/OWNERS''" ex_world ex_group]
  by (simp add: regexRawGitHubURL_def)

text \<open>What the loop body does for a url of an accepted shape.\<close>

lemma matched_url:
  assumes "MatchString reRawGitHubURL url \<or> MatchString reGitHubURL url"
  shows "auditOwnersFiles_url w grp url =
     seqs [emit [Call_Get url],
          (case httpGet w url of
             Response resp \<Rightarrow>
               if StatusCode resp = 200 then
                 emit (Call_ReadAll url #
                   (case ReadErr resp of
                      None \<Rightarrow> []
                    | Some err \<Rightarrow>
                        [Printf ERROR
                           (''unable to read owners file at '' @ url @ '' url - '' @ err)]) @
                   Call_Parse (Body resp) #
                   (case GetOwnersInfoFromBytes w (Body resp) of
                      Inl err \<Rightarrow>
                        [Printf ERROR
                           (''unable to parse owners file at '' @ url @ '' url - '' @ err)]
                    | Inr info \<Rightarrow>
                        if \<not> Contains url ''kubernetes/kubernetes'' then []
                        else auditOwnersInfo grp info url))
               else emit [stale url resp None]
           | Failure err \<Rightarrow> panic
           | PolicyFailure resp err \<Rightarrow> emit [stale url resp (Some err)])]"
  using assms unfolding auditOwnersFiles_url_def by auto

text \<open>
  A status other than 200, and an error that comes with a response, print the one
  stale-url WARNING, and the loop goes on.
\<close>

lemma auditOwnersFiles_not_ok:
  assumes "MatchString reRawGitHubURL url \<or> MatchString reGitHubURL url"
    and "httpGet w url = Response resp" and "StatusCode resp \<noteq> 200"
  shows "auditOwnersFiles_loop w grp (url # urls) =
     (Call_Get url # stale url resp None # fst (auditOwnersFiles_loop w grp urls),
      snd (auditOwnersFiles_loop w grp urls))"
  using assms(2,3) by (simp add: matched_url[OF assms(1)] emit_def)

lemma auditOwnersFiles_policy:
  assumes "MatchString reRawGitHubURL url \<or> MatchString reGitHubURL url"
    and "httpGet w url = PolicyFailure resp err"
  shows "auditOwnersFiles_loop w grp (url # urls) =
     (Call_Get url # stale url resp (Some err) # fst (auditOwnersFiles_loop w grp urls),
      snd (auditOwnersFiles_loop w grp urls))"
  using assms(2) by (simp add: matched_url[OF assms(1)] emit_def)

text \<open>
  Claim C2. For a url of an accepted shape, a GET that fails with a transport error, or
  that answers with a status other than 200, should print exactly one stale-url WARNING,
  stop the work on that url, and let the audit go on with the next url.

  For a status other than 200 the code does so (the two lemmas above). For a transport
  error \<^verbatim>\<open>http.Get\<close> returns a nil response, and the WARNING reads
  \<^verbatim>\<open>resp.StatusCode\<close>: the program panics after the request, with no WARNING printed,
  and no later url, subproject or group is audited.
\<close>

theorem auditOwnersFiles_transport_error:
  assumes "MatchString reRawGitHubURL url \<or> MatchString reGitHubURL url"
    and "httpGet w url = Failure err"
  shows "auditOwnersFiles_loop w grp (url # urls) = ([Call_Get url], Panicked)"
  using assms(2) by (simp add: matched_url[OF assms(1)] panic_def emit_def)

text \<open>No host answers for the first url; the second url, which would answer, is never asked.\<close>

theorem auditOwnersFiles_transport_error_witness:
  "auditOwnersFiles_loop ex_world ex_group
     [''https://raw.githubusercontent.com/kubernetes/community/master/OWNERS'',
      ''https://raw.githubusercontent.com/kubernetes/kubernetes/master/OWNERS''] =
   ([Call_Get ''https://raw.githubusercontent.com/kubernetes/community/master/OWNERS''],
    Panicked)"
proof -
  have m: "MatchString reRawGitHubURL
             ''https://raw.githubusercontent.com/kubernetes/community/master/OWNERS''"
    by code_simp
  have g: "httpGet ex_world
             ''https://raw.githubusercontent.com/kubernetes/community/master/OWNERS'' =
           Failure ''no such host''"
    by (simp add: ex_world_def)
  show ?thesis
    by (rule auditOwnersFiles_transport_error[OF disjI1[OF m] g])
qed

text \<open>
  Claim C9, as the specification states it: for a url that was fetched and parsed, the
  label checks are skipped when the repository of the url is not \<open>kubernetes/kubernetes\<close>.

  The code does not look at the repository: it asks whether the text
  \<open>kubernetes/kubernetes\<close> occurs anywhere in the url. The repository
  \<open>kubernetes/kubernetes-template-project\<close> is not the primary one, and its owners file
  gets both label WARNINGs.
\<close>

theorem non_primary_repository_counterexample:
  "url_repository
     ''https://raw.githubusercontent.com/kubernetes/kubernetes-template-project/master/OWNERS''
     = ''kubernetes/kubernetes-template-project'' \<and>
   auditOwnersFiles_url ex_world ex_group
     ''https://raw.githubusercontent.com/kubernetes/kubernetes-template-project/master/OWNERS'' =
   ([Call_Get ''https://raw.githubusercontent.com/kubernetes/kubernetes-template-project/master/OWNERS'',
     Call_ReadAll ''https://raw.githubusercontent.com/kubernetes/kubernetes-template-project/master/OWNERS'',
     Call_Parse ''template-approvers'',
     Printf WARNING ''file at url does not have any labels. Please ensure OWNERS file has labels reflecting sig-apps - https://raw.githubusercontent.com/kubernetes/kubernetes-template-project/master/OWNERS'',
     Printf WARNING ''file at url does not seem to have approvers/reviewers with the sig alias (defined in OWNER_ALIASES). Please consider adding a sig alias OWNER_ALIASES and add them to approvers/reviewers in this file - https://raw.githubusercontent.com/kubernetes/kubernetes-template-project/master/OWNERS''],
    Returned)"
proof -
  have m: "MatchString reRawGitHubURL
    ''https://raw.githubusercontent.com/kubernetes/kubernetes-template-project/master/OWNERS''"
    by code_simp
  have c: "Contains
    ''https://raw.githubusercontent.com/kubernetes/kubernetes-template-project/master/OWNERS''
    ''kubernetes/kubernetes''"
    by code_simp
  have r: "url_repository
     ''https://raw.githubusercontent.com/kubernetes/kubernetes-template-project/master/OWNERS''
     = ''kubernetes/kubernetes-template-project''"
    by (simp add: url_repository_def)
  have n: "\<not> Contains ''template-approvers'' ''apps''"
    by code_simp
  show ?thesis
    using m c n r
    by (simp add: auditOwnersFiles_url_def ex_world_def emit_def auditOwnersInfo_def
        ex_group_def)
qed

text \<open>
  Claim C9, amended: for a url of an accepted shape that was fetched (status 200, body
  read without error) and parsed, the label checks of \<open>auditOwnersInfo\<close> run exactly when
  the text \<open>kubernetes/kubernetes\<close> occurs in the url, wherever it occurs; otherwise
  nothing is printed for the url.
\<close>

theorem auditOwnersFiles_url_parsed:
  assumes "MatchString reRawGitHubURL url \<or> MatchString reGitHubURL url"
    and "httpGet w url = Response resp" and "StatusCode resp = 200" and "ReadErr resp = None"
    and "GetOwnersInfoFromBytes w (Body resp) = Inr info"
  shows "auditOwnersFiles_url w grp url =
     ([Call_Get url, Call_ReadAll url, Call_Parse (Body resp)] @
      (if sublist ''kubernetes/kubernetes'' url then auditOwnersInfo grp info url else []),
      Returned)"
  using assms(2-) by (simp add: matched_url[OF assms(1)] Contains_sublist emit_def)

text \<open>
  The owners file of \<open>kubernetes/kubernetes\<close> is checked against the label \<open>apps\<close> (it
  declares no labels); the one of \<open>kubernetes-sigs/kustomize\<close> is not.
\<close>

theorem auditOwnersFiles_url_parsed_witness:
  "auditOwnersFiles_url ex_world ex_group
     ''https://raw.githubusercontent.com/kubernetes/kubernetes/master/OWNERS'' =
   ([Call_Get ''https://raw.githubusercontent.com/kubernetes/kubernetes/master/OWNERS'',
     Call_ReadAll ''https://raw.githubusercontent.com/kubernetes/kubernetes/master/OWNERS'',
     Call_Parse ''sig-apps-approvers'',
     Printf WARNING ''file at url does not have any labels. Please ensure OWNERS file has labels reflecting sig-apps - https://raw.githubusercontent.com/kubernetes/kubernetes/master/OWNERS''],
    Returned) \<and>
   auditOwnersFiles_url ex_world ex_group
     ''https://raw.githubusercontent.com/kubernetes-sigs/kustomize/master/OWNERS'' =
   ([Call_Get ''https://raw.githubusercontent.com/kubernetes-sigs/kustomize/master/OWNERS'',
     Call_ReadAll ''https://raw.githubusercontent.com/kubernetes-sigs/kustomize/master/OWNERS'',
     Call_Parse ''kustomize-approvers''],
    Returned)"
proof -
  let ?k = "''https://raw.githubusercontent.com/kubernetes/kubernetes/master/OWNERS''"
  let ?s = "''https://raw.githubusercontent.com/kubernetes-sigs/kustomize/master/OWNERS''"
  let ?r = "\<lparr>StatusCode = 200, Body = ''sig-apps-approvers'', ReadErr = None\<rparr>"
  let ?q = "\<lparr>StatusCode = 200, Body = ''kustomize-approvers'', ReadErr = None\<rparr>"
  let ?i = "\<lparr>Labels = [], Approvers = [''sig-apps-approvers''], Reviewers = [],
             RequiredReviewers = []\<rparr>"
  let ?j = "\<lparr>Labels = [], Approvers = [''kustomize-approvers''], Reviewers = [],
             RequiredReviewers = []\<rparr>"
  have m: "MatchString reRawGitHubURL ?k \<or> MatchString reGitHubURL ?k"
    by code_simp
  have n: "MatchString reRawGitHubURL ?s \<or> MatchString reGitHubURL ?s"
    by code_simp
  have g: "httpGet ex_world ?k = Response ?r" "httpGet ex_world ?s = Response ?q"
    by (simp_all add: ex_world_def)
  have p: "GetOwnersInfoFromBytes ex_world (Body ?r) = Inr ?i"
     "GetOwnersInfoFromBytes ex_world (Body ?q) = Inr ?j"
    by (simp_all add: ex_world_def)
  have c: "sublist ''kubernetes/kubernetes'' ?k" "\<not> sublist ''kubernetes/kubernetes'' ?s"
    unfolding Contains_sublist[symmetric] by code_simp+
  have a: "Contains ''sig-apps-approvers'' ''apps''"
    by code_simp
  have i: "auditOwnersInfo ex_group ?i ?k =
    [Printf WARNING ''file at url does not have any labels. Please ensure OWNERS file has labels reflecting sig-apps - https://raw.githubusercontent.com/kubernetes/kubernetes/master/OWNERS'']"
    using a by (simp add: auditOwnersInfo_def ex_group_def)
  show ?thesis
    using auditOwnersFiles_url_parsed[OF m g(1) _ _ p(1), of ex_group]
      auditOwnersFiles_url_parsed[OF n g(2) _ _ p(2), of ex_group] c i
    by simp
qed

subsection \<open>Which messages a routine can print\<close>

lemma tag_auditContact: "ev \<in> set (auditContact contact) \<Longrightarrow> tag ev = ''missin''"
  by (auto simp: auditContact_def split: if_splits option.splits dest: tag_auditPerson)

lemma tag_auditLeadership:
  "ev \<in> set (auditLeadership grp groupType) \<Longrightarrow> tag ev \<in> {''missin'', ''if cha''}"
  by (auto simp: auditLeadership_def split: if_splits dest: tag_auditPerson)

lemma tag_auditCharterLink:
  "ev \<in> set (auditCharterLink w pwd grp) \<Longrightarrow> tag ev \<in> {[], ''missin'', ''unable''}"
  by (auto simp: auditCharterLink_def Let_def split: if_splits http_result.splits)

lemma tag_auditOwnersInfo:
  "ev \<in> set (auditOwnersInfo grp info url) \<Longrightarrow> tag ev \<in> {''file d'', ''file a''}"
  by (auto simp: auditOwnersInfo_def Let_def split: if_splits)

lemma tag_auditOwnersFiles_url:
  "ev \<in> set (fst (auditOwnersFiles_url w grp url)) \<Longrightarrow>
   tag ev \<in> {[], ''owner '', ''unable'', ''stale '', ''file d'', ''file a''}"
  by (auto simp: auditOwnersFiles_url_def emit_def panic_def stale_def
      split: if_splits http_result.splits option.splits sum.splits dest!: tag_auditOwnersInfo)

lemma tag_auditOwnersFiles_loop:
  "ev \<in> set (fst (auditOwnersFiles_loop w grp urls)) \<Longrightarrow>
   tag ev \<in> {[], ''owner '', ''unable'', ''stale '', ''file d'', ''file a''}"
proof (induction urls)
  case Nil
  then show ?case by (simp add: emit_def)
next
  case (Cons url urls)
  from Cons.prems consider "ev \<in> set (fst (auditOwnersFiles_url w grp url))"
    | "ev \<in> set (fst (auditOwnersFiles_loop w grp urls))"
    using set_fst_seqs2 by fastforce
  then show ?case
    using Cons.IH tag_auditOwnersFiles_url by cases blast+
qed

lemma tag_auditOwnersFiles:
  "ev \<in> set (fst (auditOwnersFiles w grp subproject)) \<Longrightarrow>
   tag ev \<in> {[], ''owner '', ''unable'', ''stale '', ''file d'', ''file a'', ''subpro'',
             CHR 0x0A # ''>>>> ''}"
  by (auto simp: auditOwnersFiles_def emit_def split: if_splits dest!: tag_auditOwnersFiles_loop)

lemma tag_auditSubProject_one:
  "ev \<in> set (fst (auditSubProject_one w grp subproject)) \<Longrightarrow>
   tag ev \<in> {[], ''owner '', ''unable'', ''stale '', ''file d'', ''file a'', ''subpro'',
             CHR 0x0A # ''>>>> '', ''missin''}"
  unfolding auditSubProject_one_def
  by (auto simp: emit_def seqs_Cons split: if_splits option.splits
      dest!: tag_auditOwnersFiles tag_auditContact)

lemma tag_auditSubProject_loop:
  "ev \<in> set (fst (auditSubProject_loop w grp subprojects)) \<Longrightarrow>
   tag ev \<in> {[], ''owner '', ''unable'', ''stale '', ''file d'', ''file a'', ''subpro'',
             CHR 0x0A # ''>>>> '', ''missin''}"
proof (induction subprojects)
  case Nil
  then show ?case by (simp add: emit_def)
next
  case (Cons subproject subprojects)
  from Cons.prems consider "ev \<in> set (fst (auditSubProject_one w grp subproject))"
    | "ev \<in> set (fst (auditSubProject_loop w grp subprojects))"
    using set_fst_seqs2 by fastforce
  then show ?case
    using Cons.IH tag_auditSubProject_one by cases blast+
qed

lemma set_fst_seqs3:
  "ev \<in> set (fst (seqs [emit b, m, emit f])) \<Longrightarrow>
     ev \<in> set b \<or> ev \<in> set (fst m) \<or> ev \<in> set f"
  by (auto simp: seqs_Cons emit_def split: if_splits)

lemma tag_auditWorkingGroupStakeholders:
  "ev \<in> set (auditWorkingGroupStakeholders ''wg'' grp ctx) \<Longrightarrow>
   tag ev \<in> {''missin'', ''stakeh''}"
  by (auto simp: auditWorkingGroupStakeholders_def stakeholder_not_found_def split: if_splits)

lemma tag_auditGroup:
  assumes "ev \<in> set (fst (auditGroup w pwd groupType grp ctx))"
  shows "tag ev \<in> {[], ''owner '', ''unable'', ''stale '', ''file d'', ''file a'', ''subpro'',
             CHR 0x0A # ''>>>> '', ''missin'', ''expect'', ''if cha''} \<or>
         (groupType = ''wg'' \<and> tag ev = ''stakeh'') \<or>
         (groupType \<noteq> ''sig'' \<and> groupType \<noteq> ''committee'' \<and> tag ev = ''only s'')"
  using assms unfolding auditGroup_def auditSubProject_def
  apply -
  apply (drule set_fst_seqs3)
  apply (elim disjE)
    apply (simp only: set_append Un_iff)
    apply (elim disjE)
              apply (auto simp: Let_def split: if_splits
        dest!: tag_auditContact tag_auditLeadership tag_auditCharterLink
          tag_auditWorkingGroupStakeholders)[11]
   apply (auto simp: emit_def split: if_splits dest!: tag_auditSubProject_loop)[1]
  apply (auto split: if_splits)[1]
  done

subsection \<open>Stakeholders outside working groups\<close>

text \<open>
  Claim C4. A group of a category other than \<open>wg\<close> that declares stakeholder sigs should
  get an ERROR, and none when its list is empty.

  \<^verbatim>\<open>auditWorkingGroupStakeholders\<close> has the branch that prints this ERROR, but
  \<^verbatim>\<open>auditGroup\<close> calls the function for the category \<open>wg\<close> only, so the branch is never
  reached: the audit of a group of another category never prints the ERROR, whatever its
  stakeholder list holds.
\<close>

theorem auditGroup_no_stakeholder_error:
  assumes "groupType \<noteq> ''wg''"
  shows "Printf ERROR ''only 'workinggroups' may have stakeholder_sigs ()''
           \<notin> set (fst (auditGroup w pwd groupType grp ctx))"
proof
  assume "Printf ERROR ''only 'workinggroups' may have stakeholder_sigs ()''
            \<in> set (fst (auditGroup w pwd groupType grp ctx))"
  from tag_auditGroup[OF this] assms show False by simp
qed

text \<open>
  The user group \<open>ex_ug\<close> declares the stakeholder sig \<open>apps\<close>: its audit prints the
  ERROR for its subproject and none for its stakeholders.
\<close>

theorem auditGroup_no_stakeholder_error_witness:
  "StakeholderSIGs ex_ug = [''apps''] \<and>
   auditGroup ex_world ''/community'' ''ug'' ex_ug ex_context =
     ([Printf PLAIN (CHR 0x0A # ''>>>> Processing ug [ug-vmware/vmware]''),
       Printf ERROR ''only sigs and committees can own code / have subprojects, found: 1 subprojects''],
      Returned)"
  using auditGroup_no_stakeholder_error[of "''ug''" ex_world "''/community''" ex_ug ex_context]
  by (simp add: auditGroup_def ex_ug_def ex_group_def ex_world_def emit_def digits_1
      auditLeadership_def auditPerson_def ex_person_def auditContact_def ex_contact_def)

subsection \<open>Subprojects by category\<close>

text \<open>
  Claim C3, as the specification states it: a committee follows the subproject rule of a
  sig, so that an empty subprojects list prints a WARNING and a list that is not empty
  is given to the validation of subprojects.

  The code applies the rule to the category \<open>sig\<close> only. The committee \<open>ex_committee\<close>
  has no subprojects and gets no WARNING; with the subproject \<open>ex_subproject\<close>, which
  has no owners, it gets no line for the subproject either.
\<close>

theorem committee_subprojects_counterexample:
  "Subprojects ex_committee = [] \<and>
   auditGroup ex_world ''/community'' ''committee'' ex_committee ex_context =
     ([Printf PLAIN (CHR 0x0A # ''>>>> Processing committee [committee-steering/steering]'')],
      Returned) \<and>
   auditGroup ex_world ''/community'' ''committee''
       (ex_committee\<lparr>Subprojects := [ex_subproject]\<rparr>) ex_context =
     ([Printf PLAIN (CHR 0x0A # ''>>>> Processing committee [committee-steering/steering]'')],
      Returned)"
  by (simp add: auditGroup_def ex_committee_def ex_group_def ex_world_def emit_def
      auditLeadership_def auditPerson_def ex_person_def auditContact_def ex_contact_def)

lemma auditGroup_committee:
  "auditGroup w pwd ''committee'' (grp\<lparr>Subprojects := subprojects\<rparr>) ctx =
   auditGroup w pwd ''committee'' grp ctx"
  by (simp add: auditGroup_def auditLeadership_def emit_def Let_def)

lemma auditGroup_committee_no_warning:
  "Printf WARNING ''missing 'subprojects' key'' \<notin>
     set (fst (auditGroup w pwd ''committee'' grp ctx))"
  by (auto simp: auditGroup_def auditLeadership_def auditContact_def auditPerson_def emit_def
      Let_def split: if_splits option.splits)

lemma auditGroup_other:
  assumes "groupType \<noteq> ''sig''" "groupType \<noteq> ''committee''" "Subprojects grp \<noteq> []"
  shows "\<exists>es. auditGroup w pwd groupType grp ctx =
     (es @ [Printf ERROR
              (''only sigs and committees can own code / have subprojects, found: '' @
               digits (length (Subprojects grp)) @ '' subprojects'')], Returned)"
  using assms by (simp add: auditGroup_def emit_def)

lemma auditGroup_sig_committee:
  assumes "groupType = ''sig'' \<or> groupType = ''committee''"
  shows "Printf ERROR (''only sigs and committees can own code / have subprojects, found: '' @
               n @ '' subprojects'') \<notin> set (fst (auditGroup w pwd groupType grp ctx))"
proof
  assume "Printf ERROR (''only sigs and committees can own code / have subprojects, found: '' @
               n @ '' subprojects'') \<in> set (fst (auditGroup w pwd groupType grp ctx))"
  from tag_auditGroup[OF this] assms show False by auto
qed

lemma auditGroup_split:
  "auditGroup w pwd groupType grp ctx =
     seqs [emit (auditGroup_fields w pwd groupType grp ctx),
           (if groupType = ''sig'' then
              (if Subprojects grp = []
               then emit [Printf WARNING ''missing 'subprojects' key'']
               else auditSubProject w grp)
            else if groupType = ''committee'' then emit []
            else emit (if Subprojects grp = [] then []
                       else [Printf ERROR
                               (''only sigs and committees can own code / have subprojects, found: '' @
                                digits (length (Subprojects grp)) @ '' subprojects'')]))]"
  by (cases "snd (auditSubProject w grp)")
     (simp_all add: auditGroup_def auditGroup_fields_def emit_def seqs_Cons)

lemma auditCharterLink_Subprojects:
  "auditCharterLink w pwd (grp\<lparr>Subprojects := subprojects\<rparr>) = auditCharterLink w pwd grp"
  by (simp add: auditCharterLink_def Let_def split: http_result.splits)

lemma auditLeadership_Subprojects:
  "auditLeadership (grp\<lparr>Subprojects := subprojects\<rparr>) groupType =
   auditLeadership grp groupType"
  by (simp add: auditLeadership_def)

lemma auditWorkingGroupStakeholders_Subprojects:
  "auditWorkingGroupStakeholders groupType (grp\<lparr>Subprojects := subprojects\<rparr>) ctx =
   auditWorkingGroupStakeholders groupType grp ctx"
  by (simp add: auditWorkingGroupStakeholders_def)

lemma auditGroup_fields_Subprojects:
  "auditGroup_fields w pwd groupType (grp\<lparr>Subprojects := subprojects\<rparr>) ctx =
   auditGroup_fields w pwd groupType grp ctx"
  by (simp add: auditGroup_fields_def auditCharterLink_Subprojects
      auditLeadership_Subprojects auditWorkingGroupStakeholders_Subprojects Let_def)

lemma no_subprojects_lines_auditPerson:
  "ev \<in> set (auditPerson extra person) \<Longrightarrow> extra = ''leadership'' \<or> extra = ''contact/liaison'' \<Longrightarrow>
   ev \<noteq> Printf WARNING ''missing 'subprojects' key''"
  by (auto simp: auditPerson_def split: if_splits)

lemma no_subprojects_lines_auditContact:
  "ev \<in> set (auditContact contact) \<Longrightarrow> ev \<noteq> Printf WARNING ''missing 'subprojects' key''"
  by (auto simp: auditContact_def split: if_splits option.splits
      dest!: no_subprojects_lines_auditPerson)

lemma no_subprojects_lines_auditLeadership:
  "ev \<in> set (auditLeadership grp groupType) \<Longrightarrow>
   ev \<noteq> Printf WARNING ''missing 'subprojects' key''"
  by (auto simp: auditLeadership_def split: if_splits dest!: no_subprojects_lines_auditPerson)

lemma no_subprojects_lines_auditCharterLink:
  "ev \<in> set (auditCharterLink w pwd grp) \<Longrightarrow>
   ev \<noteq> Printf WARNING ''missing 'subprojects' key''"
  by (auto simp: auditCharterLink_def Let_def split: if_splits http_result.splits)

lemma no_subprojects_lines_auditWorkingGroupStakeholders:
  "ev \<in> set (auditWorkingGroupStakeholders groupType grp ctx) \<Longrightarrow>
   ev \<noteq> Printf WARNING ''missing 'subprojects' key''"
  by (auto simp: auditWorkingGroupStakeholders_def stakeholder_not_found_def split: if_splits)

lemma auditGroup_fields_no_warning:
  "Printf WARNING ''missing 'subprojects' key'' \<notin> set (auditGroup_fields w pwd groupType grp ctx)"
proof
  assume "Printf WARNING ''missing 'subprojects' key''
            \<in> set (auditGroup_fields w pwd groupType grp ctx)"
  then show False
    unfolding auditGroup_fields_def
    apply -
    apply (simp only: set_append Un_iff)
    apply (elim disjE)
              apply (auto simp: Let_def split: if_splits
        dest!: no_subprojects_lines_auditContact no_subprojects_lines_auditLeadership
          no_subprojects_lines_auditCharterLink
          no_subprojects_lines_auditWorkingGroupStakeholders)[11]
    done
qed

lemma tag_auditGroup_fields:
  assumes "ev \<in> set (auditGroup_fields w pwd groupType grp ctx)"
  shows "tag ev \<in> {[], ''unable'', CHR 0x0A # ''>>>> '', ''missin'', ''expect'', ''if cha'',
                    ''stakeh''}"
  using assms unfolding auditGroup_fields_def
  apply -
  apply (simp only: set_append Un_iff)
  apply (elim disjE)
            apply (auto simp: Let_def split: if_splits
      dest!: tag_auditContact tag_auditLeadership tag_auditCharterLink
        tag_auditWorkingGroupStakeholders)[11]
  done

lemma auditGroup_fields_no_error:
  "Printf ERROR (''only sigs and committees can own code / have subprojects, found: '' @
                 n @ '' subprojects'') \<notin> set (auditGroup_fields w pwd groupType grp ctx)"
proof
  assume "Printf ERROR (''only sigs and committees can own code / have subprojects, found: '' @
                 n @ '' subprojects'') \<in> set (auditGroup_fields w pwd groupType grp ctx)"
  from tag_auditGroup_fields[OF this] show False by simp
qed

text \<open>
  Claim C3, amended. The audit of a group is its field checks, which do not depend on
  the subprojects list and print neither of the two subproject lines, followed by the
  subproject rule of its category. For a sig: an empty list prints the
  missing-subprojects WARNING, and a list that is not empty is given to the validation
  of subprojects. For a committee: nothing, whatever the list holds, so its audit is the
  same for every list and has no missing-subprojects WARNING. For any other category: a
  list that is not empty prints, as the last line, the ERROR that names its length, and
  an empty list prints nothing. A sig or a committee never gets that ERROR.
\<close>

theorem auditGroup_subprojects:
  "auditGroup w pwd groupType grp ctx =
     seqs [emit (auditGroup_fields w pwd groupType grp ctx),
           (if groupType = ''sig'' then
              (if Subprojects grp = []
               then emit [Printf WARNING ''missing 'subprojects' key'']
               else auditSubProject w grp)
            else if groupType = ''committee'' then emit []
            else emit (if Subprojects grp = [] then []
                       else [Printf ERROR
                               (''only sigs and committees can own code / have subprojects, found: '' @
                                digits (length (Subprojects grp)) @ '' subprojects'')]))] \<and>
   auditGroup_fields w pwd groupType (grp\<lparr>Subprojects := subprojects\<rparr>) ctx =
     auditGroup_fields w pwd groupType grp ctx \<and>
   Printf WARNING ''missing 'subprojects' key''
     \<notin> set (auditGroup_fields w pwd groupType grp ctx) \<and>
   Printf ERROR (''only sigs and committees can own code / have subprojects, found: '' @
                 n @ '' subprojects'')
     \<notin> set (auditGroup_fields w pwd groupType grp ctx) \<and>
   auditGroup w pwd ''committee'' (grp\<lparr>Subprojects := subprojects\<rparr>) ctx =
     auditGroup w pwd ''committee'' grp ctx \<and>
   Printf WARNING ''missing 'subprojects' key'' \<notin>
     set (fst (auditGroup w pwd ''committee'' grp ctx)) \<and>
   (groupType = ''sig'' \<or> groupType = ''committee'' \<longrightarrow>
      Printf ERROR (''only sigs and committees can own code / have subprojects, found: '' @
                    n @ '' subprojects'')
        \<notin> set (fst (auditGroup w pwd groupType grp ctx))) \<and>
   (groupType \<noteq> ''sig'' \<and> groupType \<noteq> ''committee'' \<and> Subprojects grp \<noteq> [] \<longrightarrow>
      (\<exists>es. auditGroup w pwd groupType grp ctx =
         (es @ [Printf ERROR
                  (''only sigs and committees can own code / have subprojects, found: '' @
                   digits (length (Subprojects grp)) @ '' subprojects'')], Returned)))"
proof (intro conjI impI)
  show "auditGroup w pwd groupType grp ctx =
     seqs [emit (auditGroup_fields w pwd groupType grp ctx),
           (if groupType = ''sig'' then
              (if Subprojects grp = []
               then emit [Printf WARNING ''missing 'subprojects' key'']
               else auditSubProject w grp)
            else if groupType = ''committee'' then emit []
            else emit (if Subprojects grp = [] then []
                       else [Printf ERROR
                               (''only sigs and committees can own code / have subprojects, found: '' @
                                digits (length (Subprojects grp)) @ '' subprojects'')]))]"
    by (rule auditGroup_split)
  show "auditGroup_fields w pwd groupType (grp\<lparr>Subprojects := subprojects\<rparr>) ctx =
     auditGroup_fields w pwd groupType grp ctx"
    by (rule auditGroup_fields_Subprojects)
  show "Printf WARNING ''missing 'subprojects' key''
     \<notin> set (auditGroup_fields w pwd groupType grp ctx)"
    by (rule auditGroup_fields_no_warning)
  show "Printf ERROR (''only sigs and committees can own code / have subprojects, found: '' @
                 n @ '' subprojects'')
     \<notin> set (auditGroup_fields w pwd groupType grp ctx)"
    by (rule auditGroup_fields_no_error)
  show "auditGroup w pwd ''committee'' (grp\<lparr>Subprojects := subprojects\<rparr>) ctx =
     auditGroup w pwd ''committee'' grp ctx"
    by (rule auditGroup_committee)
  show "Printf WARNING ''missing 'subprojects' key'' \<notin>
     set (fst (auditGroup w pwd ''committee'' grp ctx))"
    by (rule auditGroup_committee_no_warning)
  show "Printf ERROR (''only sigs and committees can own code / have subprojects, found: '' @
                    n @ '' subprojects'')
        \<notin> set (fst (auditGroup w pwd groupType grp ctx))"
    if "groupType = ''sig'' \<or> groupType = ''committee''"
    using that by (rule auditGroup_sig_committee)
  show "\<exists>es. auditGroup w pwd groupType grp ctx =
         (es @ [Printf ERROR
                  (''only sigs and committees can own code / have subprojects, found: '' @
                   digits (length (Subprojects grp)) @ '' subprojects'')], Returned)"
    if "groupType \<noteq> ''sig'' \<and> groupType \<noteq> ''committee'' \<and> Subprojects grp \<noteq> []"
    using that auditGroup_other[of groupType grp w pwd ctx] by simp
qed

text \<open>
  The sig \<open>ex_group\<close> without subprojects gets the WARNING; with the subproject
  \<open>ex_subproject\<close> it gets the lines of the subproject instead. The committee with the
  same subproject gets nothing for it, and the user group gets the ERROR naming the
  count 1, as in the example of the specification.
\<close>

theorem auditGroup_subprojects_witness:
  "auditGroup ex_world ''/community'' ''sig'' ex_group ex_context =
     ([Printf PLAIN (CHR 0x0A # ''>>>> Processing sig [sig-apps/apps]''),
       Call_Stat ''/community/sig-apps/charter.md'',
       Printf WARNING ''missing 'subprojects' key''], Returned) \<and>
   auditGroup ex_world ''/community'' ''sig'' (ex_group\<lparr>Subprojects := [ex_subproject]\<rparr>)
       ex_context =
     ([Printf PLAIN (CHR 0x0A # ''>>>> Processing sig [sig-apps/apps]''),
       Call_Stat ''/community/sig-apps/charter.md'',
       Printf PLAIN (CHR 0x0A # ''>>>> Processing subproject kubectl under sig-apps''),
       Printf ERROR ''missing 'owners' key''], Returned) \<and>
   auditGroup ex_world ''/community'' ''committee''
       (ex_committee\<lparr>Subprojects := [ex_subproject]\<rparr>) ex_context =
     ([Printf PLAIN (CHR 0x0A # ''>>>> Processing committee [committee-steering/steering]'')],
      Returned) \<and>
   auditGroup ex_world ''/community'' ''ug'' ex_ug ex_context =
     ([Printf PLAIN (CHR 0x0A # ''>>>> Processing ug [ug-vmware/vmware]''),
       Printf ERROR ''only sigs and committees can own code / have subprojects, found: 1 subprojects''],
      Returned)"
proof -
  have f1: "auditGroup_fields ex_world ''/community'' ''sig'' ex_group ex_context =
     [Printf PLAIN (CHR 0x0A # ''>>>> Processing sig [sig-apps/apps]''),
      Call_Stat ''/community/sig-apps/charter.md'']"
    by (simp add: auditGroup_fields_def ex_group_def ex_world_def
        auditLeadership_def auditPerson_def ex_person_def auditContact_def ex_contact_def
        auditCharterLink_def)
  have f3: "auditGroup_fields ex_world ''/community'' ''committee'' ex_committee ex_context =
     [Printf PLAIN (CHR 0x0A # ''>>>> Processing committee [committee-steering/steering]'')]"
    by (simp add: auditGroup_fields_def ex_committee_def ex_group_def ex_world_def
        auditLeadership_def auditPerson_def ex_person_def auditContact_def ex_contact_def)
  have f4: "auditGroup_fields ex_world ''/community'' ''ug'' ex_ug ex_context =
     [Printf PLAIN (CHR 0x0A # ''>>>> Processing ug [ug-vmware/vmware]'')]"
    by (simp add: auditGroup_fields_def ex_ug_def ex_group_def ex_world_def
        auditLeadership_def auditPerson_def ex_person_def auditContact_def ex_contact_def)
  have sp: "auditSubProject ex_world (ex_group\<lparr>Subprojects := [ex_subproject]\<rparr>) =
     ([Printf PLAIN (CHR 0x0A # ''>>>> Processing subproject kubectl under sig-apps''),
       Printf ERROR ''missing 'owners' key''], Returned)"
    by (simp add: auditSubProject_def auditSubProject_one_def auditContact_def emit_def
        ex_subproject_def ex_group_def ex_contact_def)
  note t = auditGroup_subprojects[where w = ex_world and pwd = "''/community''"
      and ctx = ex_context and n = "''1''"]
  have a: "auditGroup ex_world ''/community'' ''sig'' ex_group ex_context =
     ([Printf PLAIN (CHR 0x0A # ''>>>> Processing sig [sig-apps/apps]''),
       Call_Stat ''/community/sig-apps/charter.md'',
       Printf WARNING ''missing 'subprojects' key''], Returned)"
    using conjunct1[OF t[where groupType = "''sig''" and grp = ex_group and subprojects = "[]"]]
    by (simp add: f1 emit_def) (simp add: ex_group_def)
  have b: "auditGroup ex_world ''/community'' ''sig''
       (ex_group\<lparr>Subprojects := [ex_subproject]\<rparr>) ex_context =
     ([Printf PLAIN (CHR 0x0A # ''>>>> Processing sig [sig-apps/apps]''),
       Call_Stat ''/community/sig-apps/charter.md'',
       Printf PLAIN (CHR 0x0A # ''>>>> Processing subproject kubectl under sig-apps''),
       Printf ERROR ''missing 'owners' key''], Returned)"
    using conjunct1[OF t[where groupType = "''sig''"
          and grp = "ex_group\<lparr>Subprojects := [ex_subproject]\<rparr>" and subprojects = "[]"]]
      conjunct1[OF conjunct2[OF t[where groupType = "''sig''" and grp = ex_group
            and subprojects = "[ex_subproject]"]]]
    by (simp add: f1 sp emit_def)
  have c: "auditGroup ex_world ''/community'' ''committee''
       (ex_committee\<lparr>Subprojects := [ex_subproject]\<rparr>) ex_context =
     ([Printf PLAIN (CHR 0x0A # ''>>>> Processing committee [committee-steering/steering]'')],
      Returned)"
    using conjunct1[OF t[where groupType = "''committee''"
          and grp = "ex_committee\<lparr>Subprojects := [ex_subproject]\<rparr>" and subprojects = "[]"]]
      conjunct1[OF conjunct2[OF t[where groupType = "''committee''" and grp = ex_committee
            and subprojects = "[ex_subproject]"]]]
    by (simp add: f3 emit_def)
  have d: "auditGroup ex_world ''/community'' ''ug'' ex_ug ex_context =
     ([Printf PLAIN (CHR 0x0A # ''>>>> Processing ug [ug-vmware/vmware]''),
       Printf ERROR ''only sigs and committees can own code / have subprojects, found: 1 subprojects''],
      Returned)"
    using conjunct1[OF t[where groupType = "''ug''" and grp = ex_ug and subprojects = "[]"]]
    by (simp add: f4 emit_def) (simp add: ex_ug_def digits_1)
  from a b c d show ?thesis by (intro conjI)
qed

subsection \<open>The two versions on a subproject without owners\<close>

lemma sev_auditPerson_uncond:
  "Printf sev text \<in> set (auditPerson_uncond w grp groupType extra person) \<Longrightarrow> sev = WARNING"
  by (auto simp: auditPerson_uncond_def split: if_splits)

lemma sev_auditContact_uncond:
  "Printf sev text \<in> set (auditContact_uncond w contact groupType grp) \<Longrightarrow> sev = WARNING"
  by (auto simp: auditContact_uncond_def split: if_splits option.splits
      dest: sev_auditPerson_uncond)

lemma sev_auditSubProject_one_uncond:
  "Printf sev text \<in> set (auditSubProject_one_uncond w grp groupType subproject) \<Longrightarrow>
   sev = WARNING"
  by (auto simp: auditSubProject_one_uncond_def Let_def split: if_splits option.splits
      dest: sev_auditContact_uncond)

text \<open>
  When the name-filtered \<^verbatim>\<open>auditSubProject\<close> returns, what it prints for a subproject of
  the group is part of its output.
\<close>

lemma auditSubProject_loop_Returned:
  assumes "snd (auditSubProject_loop w grp subprojects) = Returned"
    and "subproject \<in> set subprojects"
  shows "set (fst (auditSubProject_one w grp subproject))
           \<subseteq> set (fst (auditSubProject_loop w grp subprojects))"
  using assms
proof (induction subprojects)
  case Nil
  then show ?case by simp
next
  case (Cons a subprojects)
  from Cons.prems(1) have r: "snd (auditSubProject_one w grp a) = Returned"
    "snd (auditSubProject_loop w grp subprojects) = Returned"
    by (simp_all add: seqs_Returned_iff)
  then have f: "fst (auditSubProject_loop w grp (a # subprojects)) =
      fst (auditSubProject_one w grp a) @ fst (auditSubProject_loop w grp subprojects)"
    by (simp add: seqs_Cons)
  show ?case
  proof (cases "subproject = a")
    case True
    then show ?thesis unfolding f by auto
  next
    case False
    with Cons.prems(2) have "subproject \<in> set subprojects" by simp
    from Cons.IH[OF r(2) this] show ?thesis unfolding f by auto
  qed
qed

lemma sev_auditSubProject_uncond:
  "Printf sev text \<in> set (auditSubProject_uncond w grp groupType) \<Longrightarrow> sev = WARNING"
  by (auto simp: auditSubProject_uncond_def dest: sev_auditSubProject_one_uncond)

lemma missing_owners_group:
  assumes "Owners subproject = []" and "subproject \<in> set (Subprojects grp)"
    and "snd (auditSubProject w grp) = Returned"
  shows "Printf ERROR ''missing 'owners' key'' \<in> set (fst (auditSubProject w grp)) \<and>
     Printf WARNING
       (''missing owners for subproject ['' @ spName subproject @ ''/'' @
        Description subproject @ ''] for a group under '' @ groupType @ ''/'' @ Dir grp)
       \<in> set (auditSubProject_uncond w grp groupType) \<and>
     fst (auditSubProject w grp) \<noteq> auditSubProject_uncond w grp groupType"
proof -
  have "Printf ERROR ''missing 'owners' key'' \<in> set (fst (auditSubProject_one w grp subproject))"
    using assms(1) by (simp add: auditSubProject_one_def emit_def)
  with auditSubProject_loop_Returned[of w grp "Subprojects grp" subproject] assms(2,3)
  have a: "Printf ERROR ''missing 'owners' key'' \<in> set (fst (auditSubProject w grp))"
    unfolding auditSubProject_def by blast
  have "Printf WARNING
       (''missing owners for subproject ['' @ spName subproject @ ''/'' @
        Description subproject @ ''] for a group under '' @ groupType @ ''/'' @ Dir grp)
       \<in> set (auditSubProject_one_uncond w grp groupType subproject)"
    using assms(1) by (simp add: auditSubProject_one_uncond_def Let_def)
  with assms(2) have b: "Printf WARNING
       (''missing owners for subproject ['' @ spName subproject @ ''/'' @
        Description subproject @ ''] for a group under '' @ groupType @ ''/'' @ Dir grp)
       \<in> set (auditSubProject_uncond w grp groupType)"
    unfolding auditSubProject_uncond_def by auto
  from a sev_auditSubProject_uncond[of ERROR "''missing 'owners' key''" w grp groupType]
  have c: "fst (auditSubProject w grp) \<noteq> auditSubProject_uncond w grp groupType"
    by auto
  from a b c show ?thesis by (intro conjI)
qed

lemma is_ERROR_simps [simp]:
  "is_ERROR (Printf sev text) = (sev = ERROR)" "is_ERROR (Call_Get u) = False"
  "is_ERROR (Call_ReadAll u) = False" "is_ERROR (Call_Parse u) = False"
  "is_ERROR (Call_Stat u) = False"
  by (simp_all add: is_ERROR_def)

lemma not_ERROR_auditPerson: "ev \<in> set (auditPerson extra person) \<Longrightarrow> \<not> is_ERROR ev"
  by (auto simp: auditPerson_def split: if_splits)

lemma not_ERROR_auditContact: "ev \<in> set (auditContact contact) \<Longrightarrow> \<not> is_ERROR ev"
  by (auto simp: auditContact_def split: if_splits option.splits dest: not_ERROR_auditPerson)

lemma not_ERROR_auditLeadership:
  "ev \<in> set (auditLeadership grp groupType) \<Longrightarrow> \<not> is_ERROR ev"
  by (auto simp: auditLeadership_def split: if_splits dest: not_ERROR_auditPerson)

lemma not_ERROR_auditCharterLink:
  "ev \<in> set (auditCharterLink w pwd grp) \<Longrightarrow> \<not> is_ERROR ev"
  by (auto simp: auditCharterLink_def Let_def split: if_splits http_result.splits)

lemma not_ERROR_auditWorkingGroupStakeholders:
  "ev \<in> set (auditWorkingGroupStakeholders ''wg'' grp ctx) \<Longrightarrow> \<not> is_ERROR ev"
  by (auto simp: auditWorkingGroupStakeholders_def stakeholder_not_found_def split: if_splits)

lemma auditGroup_fields_no_owners_error:
  "Printf ERROR ''missing 'owners' key'' \<notin> set (auditGroup_fields w pwd groupType grp ctx)"
proof
  assume "Printf ERROR ''missing 'owners' key''
            \<in> set (auditGroup_fields w pwd groupType grp ctx)"
  then show False
    unfolding auditGroup_fields_def
    apply -
    apply (simp only: set_append Un_iff)
    apply (elim disjE)
              apply (auto simp: Let_def split: if_splits
        dest!: not_ERROR_auditContact not_ERROR_auditLeadership
          not_ERROR_auditCharterLink not_ERROR_auditWorkingGroupStakeholders)[11]
    done
qed

lemma auditGroup_not_sig_no_owners_error:
  assumes "groupType \<noteq> ''sig''"
  shows "Printf ERROR ''missing 'owners' key'' \<notin> set (fst (auditGroup w pwd groupType grp ctx))"
  using assms auditGroup_fields_no_owners_error[of w pwd groupType grp ctx]
  by (simp add: auditGroup_split emit_def)

lemma auditGroup_sig_owners_error:
  assumes "Owners subproject = []" and "subproject \<in> set (Subprojects grp)"
    and "snd (auditGroup w pwd ''sig'' grp ctx) = Returned"
  shows "Printf ERROR ''missing 'owners' key'' \<in> set (fst (auditGroup w pwd ''sig'' grp ctx))"
proof -
  from assms(2) have n: "Subprojects grp \<noteq> []" by auto
  then have e: "auditGroup w pwd ''sig'' grp ctx =
      (auditGroup_fields w pwd ''sig'' grp ctx @ fst (auditSubProject w grp),
       snd (auditSubProject w grp))"
    by (simp add: auditGroup_split emit_def)
  with assms(3) have "snd (auditSubProject w grp) = Returned" by simp
  from missing_owners_group[OF assms(1,2) this] show ?thesis
    unfolding e by simp
qed

lemma sev_auditLeadership_uncond:
  "Printf sev text \<in> set (auditLeadership_uncond w grp groupType) \<Longrightarrow> sev = WARNING"
  by (auto simp: auditLeadership_uncond_def split: if_splits dest: sev_auditPerson_uncond)

lemma sev_auditCharterLink_uncond:
  "Printf sev text \<in> set (auditCharterLink_uncond w pwd groupType grp) \<Longrightarrow> sev = WARNING"
  by (auto simp: auditCharterLink_uncond_def Let_def split: if_splits http_result.splits)

lemma sev_auditWorkingGroupStakeholders_uncond:
  "Printf sev text \<in> set (auditWorkingGroupStakeholders_uncond grp groupType ctx) \<Longrightarrow>
   sev = WARNING"
  by (auto simp: auditWorkingGroupStakeholders_uncond_def split: if_splits)

lemma sev_auditGroup_uncond:
  assumes "Printf sev text \<in> set (auditGroup_uncond w pwd groupType grp ctx)"
  shows "sev = WARNING \<or> sev = PLAIN"
  using assms unfolding auditGroup_uncond_def
  apply -
  apply (simp only: set_append Un_iff)
  apply (elim disjE)
            apply (auto split: if_splits
      dest: sev_auditLeadership_uncond sev_auditCharterLink_uncond
        sev_auditWorkingGroupStakeholders_uncond sev_auditContact_uncond
        sev_auditSubProject_uncond)[11]
  done

lemma errors_auditGroup_uncond: "errors (auditGroup_uncond w pwd groupType grp ctx) = []"
proof -
  have "\<not> is_ERROR ev" if m: "ev \<in> set (auditGroup_uncond w pwd groupType grp ctx)" for ev
  proof (cases ev)
    case (Printf sev msg)
    with m sev_auditGroup_uncond[of sev msg w pwd groupType grp ctx] show ?thesis by auto
  qed simp_all
  then show ?thesis
    by (simp add: errors_def filter_empty_conv)
qed

lemma auditGroup_uncond_owners_warning:
  assumes "Owners subproject = []" and "subproject \<in> set (Subprojects grp)"
  shows "Printf WARNING
       (''missing owners for subproject ['' @ spName subproject @ ''/'' @
        Description subproject @ ''] for a group under '' @ groupType @ ''/'' @ Dir grp)
       \<in> set (auditGroup_uncond w pwd groupType grp ctx)"
proof -
  from assms(2) have n: "Subprojects grp \<noteq> []" by auto
  have "Printf WARNING
       (''missing owners for subproject ['' @ spName subproject @ ''/'' @
        Description subproject @ ''] for a group under '' @ groupType @ ''/'' @ Dir grp)
       \<in> set (auditSubProject_one_uncond w grp groupType subproject)"
    using assms(1) by (simp add: auditSubProject_one_uncond_def Let_def)
  with assms(2) have "Printf WARNING
       (''missing owners for subproject ['' @ spName subproject @ ''/'' @
        Description subproject @ ''] for a group under '' @ groupType @ ''/'' @ Dir grp)
       \<in> set (auditSubProject_uncond w grp groupType)"
    unfolding auditSubProject_uncond_def by auto
  with n show ?thesis
    by (simp add: auditGroup_uncond_def)
qed

text \<open>
  Claim C6, as the specification states it: for every subproject whose owners list is
  empty, the name-filtered audit prints an ERROR and the unconditional audit only a
  WARNING.

  The name-filtered audit validates the subprojects of sigs only. The subproject
  \<open>ex_subproject\<close> has no owners; as a subproject of a committee it gets no line from
  the name-filtered audit, and the WARNING from the unconditional one.
\<close>

theorem missing_owners_committee_counterexample:
  "Owners ex_subproject = [] \<and>
   Subprojects (ex_committee\<lparr>Subprojects := [ex_subproject]\<rparr>) = [ex_subproject] \<and>
   auditGroup ex_world ''/community'' ''committee''
       (ex_committee\<lparr>Subprojects := [ex_subproject]\<rparr>) ex_context =
     ([Printf PLAIN (CHR 0x0A # ''>>>> Processing committee [committee-steering/steering]'')],
      Returned) \<and>
   auditGroup_uncond ex_world ''/community'' ''committees''
       (ex_committee\<lparr>Subprojects := [ex_subproject]\<rparr>) ex_context =
     [Printf PLAIN ''>>>> Processing committees [committee-steering/steering]'',
      Call_Stat ''/community/committee-steering/charter.md'',
      Printf WARNING ''missing owners for subproject [kubectl/The command line client] for a group under committees/committee-steering'']"
proof -
  have a: "auditGroup ex_world ''/community'' ''committee''
       (ex_committee\<lparr>Subprojects := [ex_subproject]\<rparr>) ex_context =
     ([Printf PLAIN (CHR 0x0A # ''>>>> Processing committee [committee-steering/steering]'')],
      Returned)"
    by (simp add: auditGroup_def ex_committee_def ex_group_def ex_world_def emit_def
        auditLeadership_def auditPerson_def ex_person_def auditContact_def ex_contact_def)
  have b: "auditGroup_uncond ex_world ''/community'' ''committees''
       (ex_committee\<lparr>Subprojects := [ex_subproject]\<rparr>) ex_context =
     [Printf PLAIN ''>>>> Processing committees [committee-steering/steering]'',
      Call_Stat ''/community/committee-steering/charter.md'',
      Printf WARNING ''missing owners for subproject [kubectl/The command line client] for a group under committees/committee-steering'']"
    by (simp add: auditGroup_uncond_def ex_committee_def ex_group_def ex_world_def
        auditLeadership_uncond_def auditPerson_uncond_def ex_person_def
        auditContact_uncond_def ex_contact_def auditCharterLink_uncond_def
        auditSubProject_uncond_def auditSubProject_one_uncond_def ex_subproject_def)
  have c: "Owners ex_subproject = []"
    by (simp add: ex_subproject_def)
  from a b c show ?thesis by simp
qed

text \<open>
  Claim C6, amended. Let a group have a subproject whose owners list is empty. The
  name-filtered audit of the group as a sig, when it returns, has the ERROR for the
  missing owners among its ERROR lines; as a group of any other category it does not
  print that ERROR. The unconditional audit of the group, in any category, prints the
  WARNING for the missing owners of the subproject and has no ERROR line at all. So the
  two versions differ in severity on the subprojects of sigs. The loop bodies of the two
  \<^verbatim>\<open>auditSubProject\<close> functions behave the same way on the subproject: the name-filtered
  one returns with the ERROR, the unconditional one prints the WARNING and only WARNINGs.
\<close>

theorem missing_owners_severity:
  assumes "Owners subproject = []" and "subproject \<in> set (Subprojects grp)"
  shows "(snd (auditGroup w pwd ''sig'' grp ctx) = Returned \<longrightarrow>
       Printf ERROR ''missing 'owners' key''
         \<in> set (errors (fst (auditGroup w pwd ''sig'' grp ctx)))) \<and>
     (groupType \<noteq> ''sig'' \<longrightarrow>
       Printf ERROR ''missing 'owners' key''
         \<notin> set (fst (auditGroup w pwd groupType grp ctx))) \<and>
     Printf WARNING
       (''missing owners for subproject ['' @ spName subproject @ ''/'' @
        Description subproject @ ''] for a group under '' @ groupType @ ''/'' @ Dir grp)
       \<in> set (auditGroup_uncond w pwd groupType grp ctx) \<and>
     errors (auditGroup_uncond w pwd groupType grp ctx) = [] \<and>
     snd (auditSubProject_one w grp subproject) = Returned \<and>
     Printf ERROR ''missing 'owners' key'' \<in> set (fst (auditSubProject_one w grp subproject)) \<and>
     Printf WARNING
       (''missing owners for subproject ['' @ spName subproject @ ''/'' @
        Description subproject @ ''] for a group under '' @ groupType @ ''/'' @ Dir grp)
       \<in> set (auditSubProject_one_uncond w grp groupType subproject) \<and>
     (\<forall>sev text. Printf sev text \<in> set (auditSubProject_one_uncond w grp groupType subproject)
        \<longrightarrow> sev = WARNING)"
proof (intro conjI impI allI)
  show "Printf ERROR ''missing 'owners' key''
         \<in> set (errors (fst (auditGroup w pwd ''sig'' grp ctx)))"
    if "snd (auditGroup w pwd ''sig'' grp ctx) = Returned"
    using auditGroup_sig_owners_error[OF assms that] by (simp add: errors_def)
  show "Printf ERROR ''missing 'owners' key''
         \<notin> set (fst (auditGroup w pwd groupType grp ctx))"
    if "groupType \<noteq> ''sig''"
    using that by (rule auditGroup_not_sig_no_owners_error)
  show "Printf WARNING
       (''missing owners for subproject ['' @ spName subproject @ ''/'' @
        Description subproject @ ''] for a group under '' @ groupType @ ''/'' @ Dir grp)
       \<in> set (auditGroup_uncond w pwd groupType grp ctx)"
    using assms by (rule auditGroup_uncond_owners_warning)
  show "errors (auditGroup_uncond w pwd groupType grp ctx) = []"
    by (rule errors_auditGroup_uncond)
  show "snd (auditSubProject_one w grp subproject) = Returned"
    using assms(1) by (simp add: auditSubProject_one_def emit_def)
  show "Printf ERROR ''missing 'owners' key'' \<in> set (fst (auditSubProject_one w grp subproject))"
    using assms(1) by (simp add: auditSubProject_one_def emit_def)
  show "Printf WARNING
       (''missing owners for subproject ['' @ spName subproject @ ''/'' @
        Description subproject @ ''] for a group under '' @ groupType @ ''/'' @ Dir grp)
       \<in> set (auditSubProject_one_uncond w grp groupType subproject)"
    using assms(1) by (simp add: auditSubProject_one_uncond_def Let_def)
  show "sev = WARNING"
    if "Printf sev msg \<in> set (auditSubProject_one_uncond w grp groupType subproject)"
    for sev msg
    using that by (rule sev_auditSubProject_one_uncond)
qed

text \<open>The sig \<open>ex_group\<close> with the subproject \<open>ex_subproject\<close>, in the two versions.\<close>

theorem missing_owners_severity_witness:
  "Owners ex_subproject = [] \<and>
   ex_subproject \<in> set (Subprojects (ex_group\<lparr>Subprojects := [ex_subproject]\<rparr>)) \<and>
   auditGroup ex_world ''/community'' ''sig'' (ex_group\<lparr>Subprojects := [ex_subproject]\<rparr>)
       ex_context =
     ([Printf PLAIN (CHR 0x0A # ''>>>> Processing sig [sig-apps/apps]''),
       Call_Stat ''/community/sig-apps/charter.md'',
       Printf PLAIN (CHR 0x0A # ''>>>> Processing subproject kubectl under sig-apps''),
       Printf ERROR ''missing 'owners' key''], Returned) \<and>
   auditGroup_uncond ex_world ''/community'' ''sigs''
       (ex_group\<lparr>Subprojects := [ex_subproject]\<rparr>) ex_context =
     [Printf PLAIN ''>>>> Processing sigs [sig-apps/apps]'',
      Call_Stat ''/community/sig-apps/charter.md'',
      Printf WARNING ''missing owners for subproject [kubectl/The command line client] for a group under sigs/sig-apps''] \<and>
   Printf ERROR ''missing 'owners' key''
     \<in> set (errors (fst (auditGroup ex_world ''/community'' ''sig''
                            (ex_group\<lparr>Subprojects := [ex_subproject]\<rparr>) ex_context))) \<and>
   errors (auditGroup_uncond ex_world ''/community'' ''sigs''
             (ex_group\<lparr>Subprojects := [ex_subproject]\<rparr>) ex_context) = []"
proof -
  let ?g = "ex_group\<lparr>Subprojects := [ex_subproject]\<rparr>"
  have o: "Owners ex_subproject = []"
    by (simp add: ex_subproject_def)
  have m: "ex_subproject \<in> set (Subprojects ?g)"
    by simp
  have a: "auditGroup ex_world ''/community'' ''sig'' ?g ex_context =
     ([Printf PLAIN (CHR 0x0A # ''>>>> Processing sig [sig-apps/apps]''),
       Call_Stat ''/community/sig-apps/charter.md'',
       Printf PLAIN (CHR 0x0A # ''>>>> Processing subproject kubectl under sig-apps''),
       Printf ERROR ''missing 'owners' key''], Returned)"
    by (simp add: auditGroup_def ex_group_def ex_world_def emit_def
        auditLeadership_def auditPerson_def ex_person_def auditContact_def ex_contact_def
        auditCharterLink_def auditSubProject_def auditSubProject_one_def ex_subproject_def)
  have b: "auditGroup_uncond ex_world ''/community'' ''sigs'' ?g ex_context =
     [Printf PLAIN ''>>>> Processing sigs [sig-apps/apps]'',
      Call_Stat ''/community/sig-apps/charter.md'',
      Printf WARNING ''missing owners for subproject [kubectl/The command line client] for a group under sigs/sig-apps'']"
    by (simp add: auditGroup_uncond_def ex_group_def ex_world_def
        auditLeadership_uncond_def auditPerson_uncond_def ex_person_def
        auditContact_uncond_def ex_contact_def auditCharterLink_uncond_def
        auditSubProject_uncond_def auditSubProject_one_uncond_def ex_subproject_def)
  have r: "snd (auditGroup ex_world ''/community'' ''sig'' ?g ex_context) = Returned"
    unfolding a by simp
  note t = missing_owners_severity[OF o m, where w = ex_world and pwd = "''/community''"
      and ctx = ex_context and groupType = "''sigs''"]
  from t r have e: "Printf ERROR ''missing 'owners' key''
     \<in> set (errors (fst (auditGroup ex_world ''/community'' ''sig'' ?g ex_context)))"
    by blast
  from t have u: "errors (auditGroup_uncond ex_world ''/community'' ''sigs'' ?g ex_context) = []"
    by blast
  from o m a b e u show ?thesis by (intro conjI)
qed

subsection \<open>The order of the audit\<close>

lemma Run_groups_Returned:
  "snd (fst (Run_groups w pwd ctx name groupType grps found)) = Returned \<Longrightarrow>
     fst (fst (Run_groups w pwd ctx name groupType grps found)) =
       audits w pwd ctx (map (Pair groupType) (filter (selected name) grps)) \<and>
     snd (Run_groups w pwd ctx name groupType grps found) =
       (found \<or> filter (selected name) grps \<noteq> [])"
proof (induction grps arbitrary: found)
  case Nil
  then show ?case by (simp add: emit_def audits_def)
next
  case (Cons grp grps)
  show ?case
  proof (cases "selected name grp")
    case True
    with Cons.prems have r: "snd (fst (seq_found (auditGroup w pwd groupType grp ctx, True)
          (Run_groups w pwd ctx name groupType grps))) = Returned"
      by simp
    then have "snd (fst (Run_groups w pwd ctx name groupType grps True)) = Returned"
      by (simp add: seq_found_Returned)
    from Cons.IH[OF this] seq_found_fst[OF r] True show ?thesis
      by (simp add: audits_def)
  next
    case False
    with Cons.prems Cons.IH[of found] show ?thesis by simp
  qed
qed

lemma Run_types_Returned:
  "snd (fst (Run_types w pwd ctx name groupTypes found)) = Returned \<Longrightarrow>
     fst (fst (Run_types w pwd ctx name groupTypes found)) =
       audits w pwd ctx (selection ctx name groupTypes) \<and>
     snd (Run_types w pwd ctx name groupTypes found) =
       (found \<or> selection ctx name groupTypes \<noteq> [])"
proof (induction groupTypes arbitrary: found)
  case Nil
  then show ?case by (simp add: emit_def audits_def selection_def)
next
  case (Cons groupType groupTypes)
  let ?a = "case map_of (PrefixToGroupMap ctx) groupType of
          None \<Rightarrow> (emit [], found)
        | Some grps \<Rightarrow> Run_groups w pwd ctx name groupType grps found"
  let ?here = "case map_of (PrefixToGroupMap ctx) groupType of
           None \<Rightarrow> []
         | Some grps \<Rightarrow> map (Pair groupType) (filter (selected name) grps)"
  from Cons.prems
  have r: "snd (fst (seq_found ?a (Run_types w pwd ctx name groupTypes))) = Returned"
    by simp
  then have ra: "snd (fst ?a) = Returned"
    and rk: "snd (fst (Run_types w pwd ctx name groupTypes (snd ?a))) = Returned"
    by (simp_all add: seq_found_Returned)
  have a: "fst (fst ?a) = audits w pwd ctx ?here \<and> snd ?a = (found \<or> ?here \<noteq> [])"
  proof (cases "map_of (PrefixToGroupMap ctx) groupType")
    case None
    then show ?thesis by (simp add: emit_def audits_def)
  next
    case (Some grps)
    with ra Run_groups_Returned[of w pwd ctx name groupType grps found] show ?thesis by simp
  qed
  have s: "selection ctx name (groupType # groupTypes) = ?here @ selection ctx name groupTypes"
    by (simp add: selection_def)
  from Cons.IH[OF rk] seq_found_fst[OF r] a show ?case
    unfolding s by (auto simp: audits_def)
qed

lemma Run_names_Returned:
  "snd (Run_names w pwd ctx order i names) = Returned \<Longrightarrow>
     fst (Run_names w pwd ctx order i names) =
       concat (map (report w pwd ctx order) (enumerate i names))"
proof (induction names arbitrary: i)
  case Nil
  then show ?case by (simp add: emit_def)
next
  case (Cons name names)
  obtain r found where t: "Run_types w pwd ctx name (order i) False = (r, found)"
    by (cases "Run_types w pwd ctx name (order i) False")
  from Cons.prems t have rr: "snd r = Returned"
    and rn: "snd (Run_names w pwd ctx order (Suc i) names) = Returned"
    by (simp_all add: seqs_Returned_iff emit_def)
  from Run_types_Returned[of w pwd ctx name "order i" False] t rr
  have a: "fst r = audits w pwd ctx (selection ctx name (order i))"
    "found = (selection ctx name (order i) \<noteq> [])"
    by simp_all
  from rr have "fst (Run_names w pwd ctx order i (name # names)) =
      fst r @ (if found then [] else [Printf PLAIN (''['' @ name @ ''] not found'')]) @
      fst (Run_names w pwd ctx order (Suc i) names)"
    using t by (simp add: seqs_Cons emit_def)
  with Cons.IH[OF rn] a show ?case
    by (simp add: report_def)
qed

text \<open>The unconditional audit visits the groups category by category, in the order given.\<close>

lemma Run_uncond_order:
  "Run_uncond w now pwd ctx groupTypes =
     [Printf PLAIN (''Running script : '' @ now)] @
     concat (map (\<lambda>(groupType, grp). auditGroup_uncond w pwd groupType grp ctx)
       (selection_uncond ctx groupTypes)) @
     [Printf PLAIN ''Done.'']"
proof -
  have "concat (map (\<lambda>groupType.
         case map_of (groupMap ctx) groupType of
           None \<Rightarrow> []
         | Some grps \<Rightarrow>
             concat (map (\<lambda>grp. auditGroup_uncond w pwd groupType grp ctx) grps))
       groupTypes) =
     concat (map (\<lambda>(groupType, grp). auditGroup_uncond w pwd groupType grp ctx)
       (selection_uncond ctx groupTypes))"
  proof (induction groupTypes)
    case Nil
    then show ?case by (simp add: selection_uncond_def)
  next
    case (Cons groupType groupTypes)
    have s: "selection_uncond ctx (groupType # groupTypes) =
      (case map_of (groupMap ctx) groupType of None \<Rightarrow> []
       | Some grps \<Rightarrow> map (Pair groupType) grps) @ selection_uncond ctx groupTypes"
      by (simp add: selection_uncond_def)
    show ?case
      unfolding s using Cons.IH
      by (cases "map_of (groupMap ctx) groupType") (simp_all add: comp_def)
  qed
  then show ?thesis by (simp add: Run_uncond_def)
qed

lemma Run_sig_first:
  "Run ex_world ''10-30-2026 22:53:00'' ''/go/src/k8s.io/kubernetes'' ''/community'' ex_context
         (\<lambda>i. [''sig'', ''wg'', ''ug'', ''committee'']) [''all''] =
   ([Printf PLAIN ''Running script : 10-30-2026 22:53:00'',
     Call_Stat ''/go/src/k8s.io/kubernetes'',
     Printf PLAIN (CHR 0x0A # ''>>>> Processing sig [sig-apps/apps]''),
     Call_Stat ''/community/sig-apps/charter.md'',
     Printf WARNING ''missing 'subprojects' key'',
     Printf PLAIN (CHR 0x0A # ''>>>> Processing wg [wg-policy/policy]''),
     Printf PLAIN (CHR 0x0A # ''>>>> Processing committee [committee-steering/steering]''),
     Printf PLAIN ''Done.''], Returned)"
  by (simp add: Run_def seq_found_def PrefixToGroupMap_def selected_def
      auditGroup_def ex_context_def ex_committee_def ex_wg_def ex_group_def ex_world_def emit_def
      auditLeadership_def auditPerson_def ex_person_def auditContact_def ex_contact_def
      auditCharterLink_def auditWorkingGroupStakeholders_def)

lemma Run_wg_first:
  "Run ex_world ''10-30-2026 22:53:00'' ''/go/src/k8s.io/kubernetes'' ''/community'' ex_context
         (\<lambda>i. [''wg'', ''sig'', ''ug'', ''committee'']) [''all''] =
   ([Printf PLAIN ''Running script : 10-30-2026 22:53:00'',
     Call_Stat ''/go/src/k8s.io/kubernetes'',
     Printf PLAIN (CHR 0x0A # ''>>>> Processing wg [wg-policy/policy]''),
     Printf PLAIN (CHR 0x0A # ''>>>> Processing sig [sig-apps/apps]''),
     Call_Stat ''/community/sig-apps/charter.md'',
     Printf WARNING ''missing 'subprojects' key'',
     Printf PLAIN (CHR 0x0A # ''>>>> Processing committee [committee-steering/steering]''),
     Printf PLAIN ''Done.''], Returned)"
  by (simp add: Run_def seq_found_def PrefixToGroupMap_def selected_def
      auditGroup_def ex_context_def ex_committee_def ex_wg_def ex_group_def ex_world_def emit_def
      auditLeadership_def auditPerson_def ex_person_def auditContact_def ex_contact_def
      auditCharterLink_def auditWorkingGroupStakeholders_def)

text \<open>
  Claim C7, as the specification states it: two runs on the same input, with the
  network stubbed, print the same bytes, and the groups come category by category in a
  fixed order.

  Both versions visit the categories with \<^verbatim>\<open>range\<close> over a Go map, whose order the
  language leaves open and the runtime varies. On the same input, world and clock, a run
  that visits the sigs first and a run that visits the working groups first print
  different bytes.
\<close>

theorem Run_order_counterexample:
  "stdout (fst (Run ex_world ''10-30-2026 22:53:00'' ''/go/src/k8s.io/kubernetes''
                  ''/community'' ex_context
                  (\<lambda>i. [''sig'', ''wg'', ''ug'', ''committee'']) [''all''])) \<noteq>
   stdout (fst (Run ex_world ''10-30-2026 22:53:00'' ''/go/src/k8s.io/kubernetes''
                  ''/community'' ex_context
                  (\<lambda>i. [''wg'', ''sig'', ''ug'', ''committee'']) [''all''])) \<and>
   stdout (Run_uncond ex_world ''10-30-2026 22:53:00'' ''/community'' ex_context
             [''sigs'', ''usergroups'', ''workinggroups'', ''committees'']) \<noteq>
   stdout (Run_uncond ex_world ''10-30-2026 22:53:00'' ''/community'' ex_context
             [''workinggroups'', ''sigs'', ''usergroups'', ''committees''])"
proof -
  have a: "stdout (fst (Run ex_world ''10-30-2026 22:53:00'' ''/go/src/k8s.io/kubernetes''
                  ''/community'' ex_context
                  (\<lambda>i. [''sig'', ''wg'', ''ug'', ''committee'']) [''all''])) \<noteq>
   stdout (fst (Run ex_world ''10-30-2026 22:53:00'' ''/go/src/k8s.io/kubernetes''
                  ''/community'' ex_context
                  (\<lambda>i. [''wg'', ''sig'', ''ug'', ''committee'']) [''all'']))"
    unfolding Run_sig_first Run_wg_first by (simp add: stdout_def)
  have b: "stdout (Run_uncond ex_world ''10-30-2026 22:53:00'' ''/community'' ex_context
             [''sigs'', ''usergroups'', ''workinggroups'', ''committees'']) \<noteq>
   stdout (Run_uncond ex_world ''10-30-2026 22:53:00'' ''/community'' ex_context
             [''workinggroups'', ''sigs'', ''usergroups'', ''committees''])"
    by (simp add: stdout_def Run_uncond_def groupMap_def auditGroup_uncond_def
        ex_context_def ex_committee_def ex_wg_def ex_group_def ex_world_def
        auditLeadership_uncond_def auditPerson_uncond_def ex_person_def
        auditContact_uncond_def ex_contact_def auditCharterLink_uncond_def
        auditWorkingGroupStakeholders_uncond_def)
  from a b show ?thesis by (rule conjI)
qed

text \<open>
  Claim C7, amended. The audit is a function of its input, the world, the reading of
  the clock and the order in which each map loop visits the categories; with all of these
  the same, two runs print the same. A run that returns prints, after the first line and
  before \<open>Done.\<close>, for each argument in turn, the audits of the groups that the argument
  selects: category by category in the order in which the map loop of that argument
  visits the categories, within a category in the order of its list; then the
  not-found line if the argument selects no group.
\<close>

theorem Run_order:
  assumes "snd (Run w now kubernetesDirectory pwd ctx order args) = Returned"
  shows "fst (Run w now kubernetesDirectory pwd ctx order args) =
     [Printf PLAIN (''Running script : '' @ now), Call_Stat kubernetesDirectory] @
     concat (map (report w pwd ctx order) (enumerate 0 args)) @
     [Printf PLAIN ''Done.'']"
proof -
  from assms have n: "\<not> notExist w kubernetesDirectory"
    by (auto simp: Run_def emit_def)
  with assms have r: "snd (Run_names w pwd ctx order 0 args) = Returned"
    by (simp add: Run_def emit_def seqs_Returned_iff)
  from Run_names_Returned[OF r] n r show ?thesis
    by (simp add: Run_def emit_def seqs_Cons)
qed

text \<open>
  The run that visits the working groups first returns; \<open>all\<close> selects the working
  group, then the sig, then the committee.
\<close>

theorem Run_order_witness:
  "snd (Run ex_world ''10-30-2026 22:53:00'' ''/go/src/k8s.io/kubernetes'' ''/community''
          ex_context (\<lambda>i. [''wg'', ''sig'', ''ug'', ''committee'']) [''all'']) = Returned \<and>
   selection ex_context ''all'' [''wg'', ''sig'', ''ug'', ''committee''] =
     [(''wg'', ex_wg), (''sig'', ex_group), (''committee'', ex_committee)] \<and>
   [Printf PLAIN (''Running script : '' @ ''10-30-2026 22:53:00''),
    Call_Stat ''/go/src/k8s.io/kubernetes''] @
   concat (map (report ex_world ''/community'' ex_context
                  (\<lambda>i. [''wg'', ''sig'', ''ug'', ''committee'']))
             (enumerate 0 [''all''])) @
   [Printf PLAIN ''Done.''] =
   [Printf PLAIN ''Running script : 10-30-2026 22:53:00'',
    Call_Stat ''/go/src/k8s.io/kubernetes'',
    Printf PLAIN (CHR 0x0A # ''>>>> Processing wg [wg-policy/policy]''),
    Printf PLAIN (CHR 0x0A # ''>>>> Processing sig [sig-apps/apps]''),
    Call_Stat ''/community/sig-apps/charter.md'',
    Printf WARNING ''missing 'subprojects' key'',
    Printf PLAIN (CHR 0x0A # ''>>>> Processing committee [committee-steering/steering]''),
    Printf PLAIN ''Done.'']"
proof -
  have r: "snd (Run ex_world ''10-30-2026 22:53:00'' ''/go/src/k8s.io/kubernetes''
          ''/community'' ex_context (\<lambda>i. [''wg'', ''sig'', ''ug'', ''committee'']) [''all''])
        = Returned"
    unfolding Run_wg_first by simp
  have s: "selection ex_context ''all'' [''wg'', ''sig'', ''ug'', ''committee''] =
     [(''wg'', ex_wg), (''sig'', ex_group), (''committee'', ex_committee)]"
    by (simp add: selection_def PrefixToGroupMap_def ex_context_def selected_def)
  from Run_order[OF r] have "fst (Run ex_world ''10-30-2026 22:53:00''
      ''/go/src/k8s.io/kubernetes'' ''/community'' ex_context
      (\<lambda>i. [''wg'', ''sig'', ''ug'', ''committee'']) [''all'']) =
     [Printf PLAIN (''Running script : '' @ ''10-30-2026 22:53:00''),
      Call_Stat ''/go/src/k8s.io/kubernetes''] @
     concat (map (report ex_world ''/community'' ex_context
                  (\<lambda>i. [''wg'', ''sig'', ''ug'', ''committee'']))
             (enumerate 0 [''all''])) @
     [Printf PLAIN ''Done.'']" .
  then have e: "[Printf PLAIN (''Running script : '' @ ''10-30-2026 22:53:00''),
      Call_Stat ''/go/src/k8s.io/kubernetes''] @
     concat (map (report ex_world ''/community'' ex_context
                  (\<lambda>i. [''wg'', ''sig'', ''ug'', ''committee'']))
             (enumerate 0 [''all''])) @
     [Printf PLAIN ''Done.''] =
     [Printf PLAIN ''Running script : 10-30-2026 22:53:00'',
      Call_Stat ''/go/src/k8s.io/kubernetes'',
      Printf PLAIN (CHR 0x0A # ''>>>> Processing wg [wg-policy/policy]''),
      Printf PLAIN (CHR 0x0A # ''>>>> Processing sig [sig-apps/apps]''),
      Call_Stat ''/community/sig-apps/charter.md'',
      Printf WARNING ''missing 'subprojects' key'',
      Printf PLAIN (CHR 0x0A # ''>>>> Processing committee [committee-steering/steering]''),
      Printf PLAIN ''Done.'']"
    unfolding Run_wg_first by simp
  from r s e show ?thesis by (intro conjI)
qed

end
